theory Spec2Isabelle
  imports Complex_Main "HOL-Library.Word" "HOL-Library.Log_Nat"
begin

unbundle bit_operations_syntax

section \<open>Python values used by the driver\<close>

subsection \<open>Exceptions\<close>

text \<open>
  The exceptions that \<^verbatim>\<open>src/Gyro.py\<close> can raise: \<^verbatim>\<open>OSError\<close> from a failed bus transfer,
  \<^verbatim>\<open>ZeroDivisionError\<close> from \<^verbatim>\<open>/\<close>, \<^verbatim>\<open>KeyError\<close> from a dictionary lookup,
  \<^verbatim>\<open>ValueError\<close> from \<^verbatim>\<open>set_gyro_offset\<close> and from \<^verbatim>\<open>int(nan)\<close>, \<^verbatim>\<open>OverflowError\<close>
  from \<^verbatim>\<open>int(inf)\<close>.
\<close>

datatype error = OSError | ZeroDivisionError | KeyError string | ValueError | OverflowError

subsection \<open>Floating point\<close>

text \<open>
  Python's \<^verbatim>\<open>float\<close> is an IEEE 754 binary format with round-to-nearest, ties-to-even:
  binary64 on CPython, binary32 on MicroPython's ESP32 port, for which the driver is
  written. The format is a parameter of every operation. A finite float is represented
  by the real number it denotes, so \<^verbatim>\<open>-0.0\<close> and \<^verbatim>\<open>0.0\<close> are one value, as they are for
  Python's \<^verbatim>\<open>==\<close>; nothing in the driver tells them apart (division by either raises).
\<close>

datatype float_format = Binary32 | Binary64

fun precision :: "float_format \<Rightarrow> nat" where
  "precision Binary32 = 24"
| "precision Binary64 = 53"

fun emax :: "float_format \<Rightarrow> int" where
  "emax Binary32 = 127"
| "emax Binary64 = 1023"

datatype pyfloat = Fin real | PInf | NInf | NaN

definition pow2 :: "int \<Rightarrow> real" where
  "pow2 k = (if 0 \<le> k then 2 ^ nat k else 1 / 2 ^ nat (- k))"

text \<open>\<open>ilog2 q\<close> is \<open>\<lfloor>log\<^sub>2 \<bar>q\<bar>\<rfloor>\<close> for \<open>q \<noteq> 0\<close>, computed on integers.\<close>

definition ilog2 :: "real \<Rightarrow> int" where
  "ilog2 q =
     (if 1 \<le> \<bar>q\<bar> then bitlen \<lfloor>\<bar>q\<bar>\<rfloor> - 1 else - bitlen (\<lceil>1 / \<bar>q\<bar>\<rceil> - 1))"

definition round_half_even :: "real \<Rightarrow> int" where
  "round_half_even x =
     (let n = \<lfloor>x\<rfloor>; d = x - of_int n
      in if d < 1 / 2 then n else if 1 / 2 < d then n + 1
         else if even n then n else n + 1)"

text \<open>
  Rounding of an exact result into the format. \<open>e\<close> is the exponent of the binade of
  \<open>q\<close>, not below the smallest normal exponent (below it the spacing of the subnormals
  applies); \<open>ulp\<close> is the spacing of the floats there; \<open>m\<close> is the integer significand,
  at most \<open>2 ^ precision\<close>. The result overflows when it reaches \<open>2 ^ (emax + 1)\<close>: the
  binade is above \<open>emax\<close>, or it is \<open>emax\<close> and the significand rounded up to
  \<open>2 ^ precision\<close>.
\<close>

definition rnd :: "float_format \<Rightarrow> real \<Rightarrow> pyfloat" where
  "rnd fmt q =
     (if q = 0 then Fin 0
      else let e = max (ilog2 q) (1 - emax fmt);
               ulp = pow2 (e - (int (precision fmt) - 1));
               m = round_half_even (\<bar>q\<bar> / ulp)
           in if emax fmt < e \<or> (e = emax fmt \<and> m = 2 ^ precision fmt)
              then (if q < 0 then NInf else PInf)
              else Fin (sgn q * of_int m * ulp))"

text \<open>\<^verbatim>\<open>float(i)\<close>, the conversion \<^verbatim>\<open>/\<close>, \<^verbatim>\<open>+\<close>, \<^verbatim>\<open>-\<close> and \<^verbatim>\<open>*\<close> apply to an \<^verbatim>\<open>int\<close> operand.\<close>

definition py_float :: "float_format \<Rightarrow> int \<Rightarrow> pyfloat" where
  "py_float fmt i = rnd fmt (of_int i)"

fun fneg :: "pyfloat \<Rightarrow> pyfloat" where
  "fneg (Fin a) = Fin (- a)"
| "fneg PInf = NInf"
| "fneg NInf = PInf"
| "fneg NaN = NaN"

fun fadd :: "float_format \<Rightarrow> pyfloat \<Rightarrow> pyfloat \<Rightarrow> pyfloat" where
  "fadd fmt (Fin a) (Fin b) = rnd fmt (a + b)"
| "fadd fmt NaN _ = NaN"
| "fadd fmt _ NaN = NaN"
| "fadd fmt PInf NInf = NaN"
| "fadd fmt NInf PInf = NaN"
| "fadd fmt PInf _ = PInf"
| "fadd fmt NInf _ = NInf"
| "fadd fmt (Fin a) PInf = PInf"
| "fadd fmt (Fin a) NInf = NInf"

definition fsub :: "float_format \<Rightarrow> pyfloat \<Rightarrow> pyfloat \<Rightarrow> pyfloat" where
  "fsub fmt a b = fadd fmt a (fneg b)"

fun fmul :: "float_format \<Rightarrow> pyfloat \<Rightarrow> pyfloat \<Rightarrow> pyfloat" where
  "fmul fmt (Fin a) (Fin b) = rnd fmt (a * b)"
| "fmul fmt NaN _ = NaN"
| "fmul fmt _ NaN = NaN"
| "fmul fmt (Fin a) PInf = (if a = 0 then NaN else if 0 < a then PInf else NInf)"
| "fmul fmt (Fin a) NInf = (if a = 0 then NaN else if 0 < a then NInf else PInf)"
| "fmul fmt PInf (Fin b) = (if b = 0 then NaN else if 0 < b then PInf else NInf)"
| "fmul fmt NInf (Fin b) = (if b = 0 then NaN else if 0 < b then NInf else PInf)"
| "fmul fmt PInf PInf = PInf"
| "fmul fmt PInf NInf = NInf"
| "fmul fmt NInf PInf = NInf"
| "fmul fmt NInf NInf = PInf"

text \<open>The quotient for a divisor that is not zero (Python raises before dividing by zero).\<close>

fun fdiv :: "float_format \<Rightarrow> pyfloat \<Rightarrow> pyfloat \<Rightarrow> pyfloat" where
  "fdiv fmt (Fin a) (Fin b) = rnd fmt (a / b)"
| "fdiv fmt NaN _ = NaN"
| "fdiv fmt _ NaN = NaN"
| "fdiv fmt (Fin a) PInf = Fin 0"
| "fdiv fmt (Fin a) NInf = Fin 0"
| "fdiv fmt PInf (Fin b) = (if 0 \<le> b then PInf else NInf)"
| "fdiv fmt NInf (Fin b) = (if 0 \<le> b then NInf else PInf)"
| "fdiv fmt PInf PInf = NaN"
| "fdiv fmt PInf NInf = NaN"
| "fdiv fmt NInf PInf = NaN"
| "fdiv fmt NInf NInf = NaN"

text \<open>\<^verbatim>\<open>a / b\<close> on floats: \<^verbatim>\<open>ZeroDivisionError\<close> when \<^verbatim>\<open>b == 0\<close>.\<close>

definition py_truediv :: "float_format \<Rightarrow> pyfloat \<Rightarrow> pyfloat \<Rightarrow> error + pyfloat" where
  "py_truediv fmt a b = (if b = Fin 0 then Inl ZeroDivisionError else Inr (fdiv fmt a b))"

text \<open>
  \<^verbatim>\<open>int(x)\<close> on a float truncates toward zero; it raises \<^verbatim>\<open>OverflowError\<close> on an infinity
  and \<^verbatim>\<open>ValueError\<close> on a NaN.
\<close>

definition trunc_toward_zero :: "real \<Rightarrow> int" where
  "trunc_toward_zero q = (if 0 \<le> q then \<lfloor>q\<rfloor> else \<lceil>q\<rceil>)"

fun py_int :: "pyfloat \<Rightarrow> error + int" where
  "py_int (Fin q) = Inr (trunc_toward_zero q)"
| "py_int PInf = Inl OverflowError"
| "py_int NInf = Inl OverflowError"
| "py_int NaN = Inl ValueError"

subsection \<open>Dictionaries and statements that may raise\<close>

type_synonym 'a dict = "string \<rightharpoonup> 'a"

text \<open>
  A statement runs in a state \<open>'s\<close> and either returns a value or raises; the state it
  leaves behind is kept in both cases, as a Python object keeps what was assigned
  before an exception.
\<close>

type_synonym ('s, 'a) stmt = "'s \<Rightarrow> (error + 'a) \<times> 's"

definition ret :: "'a \<Rightarrow> ('s, 'a) stmt" where
  "ret a s = (Inr a, s)"

definition lift :: "error + 'a \<Rightarrow> ('s, 'a) stmt" where
  "lift r s = (r, s)"

definition seq :: "('s, 'a) stmt \<Rightarrow> ('a \<Rightarrow> ('s, 'b) stmt) \<Rightarrow> ('s, 'b) stmt" where
  "seq f g s = (case f s of (Inl e, s') \<Rightarrow> (Inl e, s') | (Inr a, s') \<Rightarrow> g a s')"

text \<open>\<^verbatim>\<open>d[k]\<close>\<close>

definition getitem :: "'a dict \<Rightarrow> string \<Rightarrow> error + 'a" where
  "getitem d k = (case d k of None \<Rightarrow> Inl (KeyError k) | Some v \<Rightarrow> Inr v)"

section \<open>The environment: the I2C bus and the millisecond clock\<close>

text \<open>
  The bus and the clock are outside the driver. Their behaviour is a script the driver
  cannot influence: \<open>i2c_bus w n a reg\<close> is the outcome of the \<open>n\<close>-th bus transaction
  when it addresses register \<open>reg\<close> of device \<open>a\<close> (\<open>None\<close>: the transfer fails with
  \<^verbatim>\<open>OSError\<close>; for a read, \<open>Some b\<close> is the byte read), and \<open>clock w n\<close> is what the \<open>n\<close>-th
  call of \<^verbatim>\<open>time.ticks_ms()\<close> returns. \<^verbatim>\<open>time.sleep\<close> and \<^verbatim>\<open>print\<close> change neither
  counter and are left out. \<open>TICKS_PERIOD\<close> is the port's wrap-around period of
  \<^verbatim>\<open>ticks_ms\<close>.
\<close>

record world =
  i2c_bus :: "nat \<Rightarrow> int \<Rightarrow> int \<Rightarrow> 8 word option"
  i2c_count :: nat
  clock :: "nat \<Rightarrow> int"
  clock_count :: nat
  TICKS_PERIOD :: int

text \<open>\<^verbatim>\<open>i2c.readfrom_mem(addr, reg, 1)[0]\<close>\<close>

definition readfrom_mem :: "int \<Rightarrow> int \<Rightarrow> (world, 8 word) stmt" where
  "readfrom_mem a reg w =
     ((case i2c_bus w (i2c_count w) a reg of None \<Rightarrow> Inl OSError | Some b \<Rightarrow> Inr b),
      w\<lparr>i2c_count := Suc (i2c_count w)\<rparr>)"


text \<open>\<^verbatim>\<open>time.ticks_ms()\<close>\<close>

definition ticks_ms :: "world \<Rightarrow> int \<times> world" where
  "ticks_ms w = (clock w (clock_count w), w\<lparr>clock_count := Suc (clock_count w)\<rparr>)"

text \<open>
  \<^verbatim>\<open>time.ticks_diff(t1, t2)\<close> is MicroPython's, not the repository's: the difference
  reduced into \<open>[- TICKS_PERIOD / 2, TICKS_PERIOD / 2)\<close>, which is what makes it safe
  across a wrap-around of the counter.
\<close>

definition ticks_diff :: "world \<Rightarrow> int \<Rightarrow> int \<Rightarrow> int" where
  "ticks_diff w t1 t2 =
     (t1 - t2 + TICKS_PERIOD w div 2) mod TICKS_PERIOD w - TICKS_PERIOD w div 2"

section \<open>The driver: class \<^verbatim>\<open>MPU6050\<close>\<close>

record mpu =
  addr :: int
  omega_offset_sensetivity_factor :: pyfloat
  accel_offset_sensetivity_factor :: pyfloat
  theta :: "int dict"
  theta_f :: "pyfloat dict"
  last_update :: int
  omega_offset :: "pyfloat dict"

definition TEMP_OUT_H :: int where "TEMP_OUT_H = 0x41"
definition ACCEL_XOUT_H :: int where "ACCEL_XOUT_H = 0x3B"
definition ACCEL_YOUT_H :: int where "ACCEL_YOUT_H = 0x3D"
definition ACCEL_ZOUT_H :: int where "ACCEL_ZOUT_H = 0x3F"
definition GYRO_XOUT_H :: int where "GYRO_XOUT_H = 0x43"
definition GYRO_YOUT_H :: int where "GYRO_YOUT_H = 0x45"
definition GYRO_ZOUT_H :: int where "GYRO_ZOUT_H = 0x47"

text \<open>\<^verbatim>\<open>_read_raw_data(self, reg)\<close>\<close>

definition read_raw_data :: "mpu \<Rightarrow> int \<Rightarrow> (world, int) stmt" where
  "read_raw_data self reg =
     seq (readfrom_mem (addr self) reg) (\<lambda>high.
     seq (readfrom_mem (addr self) (reg + 1)) (\<lambda>low.
       let value = push_bit 8 (uint high) OR uint low
       in ret (if value > 32767 then value - 65536 else value)))"

text \<open>A float literal of the source, such as \<^verbatim>\<open>131.0\<close>.\<close>

definition float_literal :: "float_format \<Rightarrow> real \<Rightarrow> pyfloat" where
  "float_literal fmt q = rnd fmt q"

text \<open>\<^verbatim>\<open>get_temp(self)\<close>\<close>

definition get_temp :: "float_format \<Rightarrow> mpu \<Rightarrow> (world, pyfloat) stmt" where
  "get_temp fmt self =
     seq (read_raw_data self TEMP_OUT_H) (\<lambda>rawtemp.
     seq (lift (py_truediv fmt (py_float fmt rawtemp) (float_literal fmt 340))) (\<lambda>t.
       ret (fadd fmt t (float_literal fmt (3653 / 100)))))"

text \<open>\<^verbatim>\<open>get_accel(self)\<close>\<close>

definition get_accel :: "float_format \<Rightarrow> mpu \<Rightarrow> (world, pyfloat dict) stmt" where
  "get_accel fmt self =
     seq (read_raw_data self ACCEL_XOUT_H) (\<lambda>rx.
     seq (lift (py_truediv fmt (py_float fmt rx) (accel_offset_sensetivity_factor self))) (\<lambda>ax.
     seq (read_raw_data self ACCEL_YOUT_H) (\<lambda>ry.
     seq (lift (py_truediv fmt (py_float fmt ry) (accel_offset_sensetivity_factor self))) (\<lambda>ay.
     seq (read_raw_data self ACCEL_ZOUT_H) (\<lambda>rz.
     seq (lift (py_truediv fmt (py_float fmt rz) (accel_offset_sensetivity_factor self))) (\<lambda>az.
       ret [''x'' \<mapsto> ax, ''y'' \<mapsto> ay, ''z'' \<mapsto> az]))))))"

text \<open>\<^verbatim>\<open>get_omega(self)\<close>\<close>

definition get_omega :: "float_format \<Rightarrow> mpu \<Rightarrow> (world, pyfloat dict) stmt" where
  "get_omega fmt self =
     seq (read_raw_data self GYRO_XOUT_H) (\<lambda>rx.
     seq (lift (py_truediv fmt (py_float fmt rx) (omega_offset_sensetivity_factor self))) (\<lambda>gx.
     seq (read_raw_data self GYRO_YOUT_H) (\<lambda>ry.
     seq (lift (py_truediv fmt (py_float fmt ry) (omega_offset_sensetivity_factor self))) (\<lambda>gy.
     seq (read_raw_data self GYRO_ZOUT_H) (\<lambda>rz.
     seq (lift (py_truediv fmt (py_float fmt rz) (omega_offset_sensetivity_factor self))) (\<lambda>gz.
     seq (lift (getitem (omega_offset self) ''x'')) (\<lambda>ox.
     seq (lift (getitem (omega_offset self) ''y'')) (\<lambda>oy.
     seq (lift (getitem (omega_offset self) ''z'')) (\<lambda>oz.
       ret [''x'' \<mapsto> fsub fmt gx ox, ''y'' \<mapsto> fsub fmt gy oy,
            ''z'' \<mapsto> fsub fmt gz oz])))))))))"

text \<open>
  \<^verbatim>\<open>_calibrate_gyro(self, samples=200)\<close>. The loop \<^verbatim>\<open>for _ in range(samples)\<close> runs
  \<open>nat samples\<close> times. The accumulators start as the \<^verbatim>\<open>int\<close> \<^verbatim>\<open>0\<close>, which \<^verbatim>\<open>+=\<close> and
  \<^verbatim>\<open>/\<close> convert to the float \<^verbatim>\<open>0.0\<close>. The final comprehension runs over the items of
  the local dictionary, whose keys are \<^verbatim>\<open>'x'\<close>, \<^verbatim>\<open>'y'\<close>, \<^verbatim>\<open>'z'\<close>.
\<close>

fun calibrate_loop ::
  "float_format \<Rightarrow> mpu \<Rightarrow> nat \<Rightarrow> pyfloat dict \<Rightarrow> (world, pyfloat dict) stmt" where
  "calibrate_loop fmt self 0 offset = ret offset"
| "calibrate_loop fmt self (Suc n) offset =
     seq (read_raw_data self GYRO_XOUT_H) (\<lambda>rx.
     seq (lift (py_truediv fmt (py_float fmt rx) (omega_offset_sensetivity_factor self))) (\<lambda>gx.
     seq (read_raw_data self GYRO_YOUT_H) (\<lambda>ry.
     seq (lift (py_truediv fmt (py_float fmt ry) (omega_offset_sensetivity_factor self))) (\<lambda>gy.
     seq (read_raw_data self GYRO_ZOUT_H) (\<lambda>rz.
     seq (lift (py_truediv fmt (py_float fmt rz) (omega_offset_sensetivity_factor self))) (\<lambda>gz.
     seq (lift (getitem offset ''x'')) (\<lambda>ox.
     seq (lift (getitem (offset(''x'' \<mapsto> fadd fmt ox gx)) ''y'')) (\<lambda>oy.
     seq (lift (getitem (offset(''x'' \<mapsto> fadd fmt ox gx, ''y'' \<mapsto> fadd fmt oy gy)) ''z''))
       (\<lambda>oz.
       calibrate_loop fmt self n
         (offset(''x'' \<mapsto> fadd fmt ox gx, ''y'' \<mapsto> fadd fmt oy gy,
                 ''z'' \<mapsto> fadd fmt oz gz)))))))))))"

definition calibrate_gyro :: "float_format \<Rightarrow> mpu \<Rightarrow> int \<Rightarrow> (world, pyfloat dict) stmt" where
  "calibrate_gyro fmt self samples =
     seq (calibrate_loop fmt self (nat samples) [''x'' \<mapsto> Fin 0, ''y'' \<mapsto> Fin 0, ''z'' \<mapsto> Fin 0])
       (\<lambda>offset.
     seq (lift (getitem offset ''x'')) (\<lambda>vx.
     seq (lift (py_truediv fmt vx (py_float fmt samples))) (\<lambda>mx.
     seq (lift (getitem offset ''y'')) (\<lambda>vy.
     seq (lift (py_truediv fmt vy (py_float fmt samples))) (\<lambda>my.
     seq (lift (getitem offset ''z'')) (\<lambda>vz.
     seq (lift (py_truediv fmt vz (py_float fmt samples))) (\<lambda>mz.
       ret [''x'' \<mapsto> mx, ''y'' \<mapsto> my, ''z'' \<mapsto> mz])))))))"

text \<open>
  The body of \<^verbatim>\<open>for axis in ['x', 'y', 'z']\<close> in \<^verbatim>\<open>update_theta\<close>:
  \<^verbatim>\<open>self._theta_f[axis] += omega[axis] * dt\<close>, then
  \<^verbatim>\<open>self.theta[axis] = int(self._theta_f[axis])\<close>.
\<close>

fun theta_loop ::
  "float_format \<Rightarrow> pyfloat dict \<Rightarrow> pyfloat \<Rightarrow> string list \<Rightarrow> mpu \<Rightarrow> (error + unit) \<times> mpu" where
  "theta_loop fmt omega dt [] self = (Inr (), self)"
| "theta_loop fmt omega dt (axis # axes) self =
     (case getitem (theta_f self) axis of
        Inl e \<Rightarrow> (Inl e, self)
      | Inr t \<Rightarrow>
          (case getitem omega axis of
             Inl e \<Rightarrow> (Inl e, self)
           | Inr om \<Rightarrow>
               (let t' = fadd fmt t (fmul fmt om dt);
                    self1 = self\<lparr>theta_f := (theta_f self)(axis \<mapsto> t')\<rparr>
                in case py_int t' of
                     Inl e \<Rightarrow> (Inl e, self1)
                   | Inr i \<Rightarrow>
                       theta_loop fmt omega dt axes
                         (self1\<lparr>theta := (theta self1)(axis \<mapsto> i)\<rparr>))))"

text \<open>
  \<^verbatim>\<open>update_theta(self)\<close>. \<^verbatim>\<open>ticks_diff(...) / 1000\<close> divides two \<^verbatim>\<open>int\<close>s: MicroPython
  converts both to float and divides.
\<close>

definition update_theta :: "float_format \<Rightarrow> mpu \<Rightarrow> world \<Rightarrow> (error + unit) \<times> mpu \<times> world" where
  "update_theta fmt self w =
     (let (now, w1) = ticks_ms w
      in case py_truediv fmt (py_float fmt (ticks_diff w1 now (last_update self)))
                (py_float fmt 1000) of
           Inl e \<Rightarrow> (Inl e, self, w1)
         | Inr dt \<Rightarrow>
             (let self1 = self\<lparr>last_update := now\<rparr>
              in case get_omega fmt self1 w1 of
                   (Inl e, w2) \<Rightarrow> (Inl e, self1, w2)
                 | (Inr omega, w2) \<Rightarrow>
                     (case theta_loop fmt omega dt [''x'', ''y'', ''z''] self1 of
                        (r, self2) \<Rightarrow> (r, self2, w2))))"

text \<open>\<^verbatim>\<open>get_theta(self)\<close>\<close>

definition get_theta :: "float_format \<Rightarrow> mpu \<Rightarrow> world \<Rightarrow> (error + int dict) \<times> mpu \<times> world" where
  "get_theta fmt self w =
     (case update_theta fmt self w of
        (Inl e, self', w') \<Rightarrow> (Inl e, self', w')
      | (Inr u, self', w') \<Rightarrow> (Inr (theta self'), self', w'))"

text \<open>\<^verbatim>\<open>reset_theta(self)\<close>\<close>

definition reset_theta :: "mpu \<Rightarrow> world \<Rightarrow> mpu \<times> world" where
  "reset_theta self w =
     (let (now, w1) = ticks_ms w
      in (self\<lparr>theta := [''x'' \<mapsto> 0, ''y'' \<mapsto> 0, ''z'' \<mapsto> 0],
               theta_f := [''x'' \<mapsto> Fin 0, ''y'' \<mapsto> Fin 0, ''z'' \<mapsto> Fin 0],
               last_update := now\<rparr>, w1))"

text \<open>\<^verbatim>\<open>reset_gyro_offset(self)\<close>\<close>

definition reset_gyro_offset :: "float_format \<Rightarrow> mpu \<Rightarrow> world \<Rightarrow> (error + unit) \<times> mpu \<times> world" where
  "reset_gyro_offset fmt self w =
     (case calibrate_gyro fmt self 200 w of
        (Inl e, w') \<Rightarrow> (Inl e, self, w')
      | (Inr offset, w') \<Rightarrow> (Inr (), self\<lparr>omega_offset := offset\<rparr>, w'))"

text \<open>\<^verbatim>\<open>set_gyro_offset(self, offset)\<close>\<close>

definition set_gyro_offset :: "mpu \<Rightarrow> pyfloat dict \<Rightarrow> (error + unit) \<times> mpu" where
  "set_gyro_offset self offset =
     (if list_all (\<lambda>axis. offset axis \<noteq> None) [''x'', ''y'', ''z'']
      then (Inr (), self\<lparr>omega_offset := offset\<rparr>)
      else (Inl ValueError, self))"

text \<open>\<^verbatim>\<open>set_gyro_sensitivity(self, factor)\<close> and \<^verbatim>\<open>set_accel_sensitivity(self, factor)\<close>\<close>

definition set_gyro_sensitivity :: "mpu \<Rightarrow> pyfloat \<Rightarrow> mpu" where
  "set_gyro_sensitivity self factor = self\<lparr>omega_offset_sensetivity_factor := factor\<rparr>"

definition set_accel_sensitivity :: "mpu \<Rightarrow> pyfloat \<Rightarrow> mpu" where
  "set_accel_sensitivity self factor = self\<lparr>accel_offset_sensetivity_factor := factor\<rparr>"


section \<open>Notions used in the properties\<close>




text \<open>
  The public operations of the driver as values, and the state a call leaves behind,
  whether it returned or raised.
\<close>

datatype call =
    Get_temp | Get_accel | Get_omega | Update_theta | Get_theta | Reset_theta
  | Reset_gyro_offset | Set_gyro_offset "pyfloat dict"
  | Set_gyro_sensitivity pyfloat | Set_accel_sensitivity pyfloat

fun do_call :: "float_format \<Rightarrow> mpu \<times> world \<Rightarrow> call \<Rightarrow> mpu \<times> world" where
  "do_call fmt (self, w) Get_temp = (self, snd (get_temp fmt self w))"
| "do_call fmt (self, w) Get_accel = (self, snd (get_accel fmt self w))"
| "do_call fmt (self, w) Get_omega = (self, snd (get_omega fmt self w))"
| "do_call fmt (self, w) Update_theta = snd (update_theta fmt self w)"
| "do_call fmt (self, w) Get_theta = snd (get_theta fmt self w)"
| "do_call fmt (self, w) Reset_theta = reset_theta self w"
| "do_call fmt (self, w) Reset_gyro_offset = snd (reset_gyro_offset fmt self w)"
| "do_call fmt (self, w) (Set_gyro_offset offset) = (snd (set_gyro_offset self offset), w)"
| "do_call fmt (self, w) (Set_gyro_sensitivity factor) = (set_gyro_sensitivity self factor, w)"
| "do_call fmt (self, w) (Set_accel_sensitivity factor) = (set_accel_sensitivity self factor, w)"

text \<open>
  The mean of a list of samples as the specification words it: the samples are
  accumulated into a sum, starting from zero, and the sum is divided by the sample count.
  Every addition and the division round.
\<close>

definition float_sum :: "float_format \<Rightarrow> pyfloat list \<Rightarrow> pyfloat" where
  "float_sum fmt xs = foldl (fadd fmt) (Fin 0) xs"

definition float_mean :: "float_format \<Rightarrow> pyfloat list \<Rightarrow> pyfloat" where
  "float_mean fmt xs = fdiv fmt (float_sum fmt xs) (py_float fmt (int (length xs)))"

text \<open>
  The raw value that \<^verbatim>\<open>_read_raw_data(reg)\<close> yields when its two reads are the bus
  transactions \<open>n\<close> and \<open>n + 1\<close>.
\<close>

definition raw_at :: "mpu \<Rightarrow> world \<Rightarrow> nat \<Rightarrow> int \<Rightarrow> error + int" where
  "raw_at self w n reg = fst (read_raw_data self reg (w\<lparr>i2c_count := n\<rparr>))"

section \<open>Example environments\<close>

text \<open>
  A device at rest: every high-byte register (they are the odd ones) reads \<open>hi\<close> and
  every low-byte register reads \<open>lo\<close>; the clock returns \<open>ticks n\<close> at its \<open>n\<close>-th call.
\<close>

definition steady_world :: "8 word \<Rightarrow> 8 word \<Rightarrow> (nat \<Rightarrow> int) \<Rightarrow> world" where
  "steady_world hi lo ticks =
     \<lparr>i2c_bus = (\<lambda>n a reg. Some (if odd reg then hi else lo)), i2c_count = 0,
      clock = ticks, clock_count = 0, TICKS_PERIOD = 2 ^ 30\<rparr>"

text \<open>A driver object as \<^verbatim>\<open>__init__\<close> leaves it, with the given bias offset.\<close>

definition fresh_mpu :: "float_format \<Rightarrow> pyfloat dict \<Rightarrow> mpu" where
  "fresh_mpu fmt offset =
     \<lparr>addr = 0x68,
      omega_offset_sensetivity_factor = float_literal fmt 131,
      accel_offset_sensetivity_factor = float_literal fmt 16384,
      theta = [''x'' \<mapsto> 0, ''y'' \<mapsto> 0, ''z'' \<mapsto> 0],
      theta_f = [''x'' \<mapsto> Fin 0, ''y'' \<mapsto> Fin 0, ''z'' \<mapsto> Fin 0],
      last_update = 0,
      omega_offset = offset\<rparr>"

section \<open>Properties\<close>

subsection \<open>Sequencing\<close>

lemma seq_Inr: "f s = (Inr a, s') \<Longrightarrow> seq f g s = g a s'"
  by (simp add: seq_def)

lemma seq_Inl: "f s = (Inl e, s') \<Longrightarrow> seq f g s = (Inl e, s')"
  by (simp add: seq_def)

subsection \<open>Floating-point facts\<close>

lemma bitlen_numeral_simps [simp]:
  "bitlen (numeral (Num.Bit0 n)) = bitlen (numeral n) + 1"
  "bitlen (numeral (Num.Bit1 n)) = bitlen (numeral n) + 1"
  "bitlen 1 = 1"
  "bitlen (- numeral n) = 0"
proof -
  have a: "(numeral (Num.Bit0 n) :: int) div 2 = numeral n" by simp
  have b: "(numeral (Num.Bit1 n) :: int) div 2 = numeral n" by simp
  show "bitlen (numeral (Num.Bit0 n)) = bitlen (numeral n) + 1"
    using compute_bitlen [of "numeral (Num.Bit0 n)"] a by simp
  show "bitlen (numeral (Num.Bit1 n)) = bitlen (numeral n) + 1"
    using compute_bitlen [of "numeral (Num.Bit1 n)"] b by simp
  show "bitlen 1 = 1"
    using compute_bitlen [of 1] by simp
  show "bitlen (- numeral n) = 0"
    using compute_bitlen [of "- numeral n"] by simp
qed

lemmas rnd_eval = rnd_def ilog2_def pow2_def round_half_even_def Let_def

lemma rnd_0 [simp]: "rnd fmt 0 = Fin 0"
  by (simp add: rnd_def)

lemma rnd_1 [simp]: "rnd fmt 1 = Fin 1"
  by (cases fmt) (simp_all add: rnd_eval)

lemma fsub_self [simp]: "fsub fmt (Fin a) (Fin a) = Fin 0"
  by (simp add: fsub_def)

lemma fdiv_self: "a \<noteq> 0 \<Longrightarrow> fdiv fmt (Fin a) (Fin a) = Fin 1"
  by simp

lemma round_half_even_of_int [simp]: "round_half_even (of_int n) = n"
  by (simp add: round_half_even_def)

lemma precision_ge_24: "24 \<le> precision fmt"
  by (cases fmt) simp_all

lemma emax_ge_127: "127 \<le> emax fmt"
  by (cases fmt) simp_all

lemma rnd_nat_exact:
  assumes "0 < n" and "n < 2 ^ 24"
  shows "rnd fmt (of_int n) = Fin (of_int n)"
proof -
  define e where "e = bitlen n - 1"
  define p where "p = precision fmt"
  have bl: "2 ^ nat (bitlen n - 1) \<le> n" "n < 2 ^ nat (bitlen n)"
    using bitlen_bounds [OF assms(1)] by simp_all
  have e0: "0 \<le> e"
    using assms(1) bitlen_bounds [OF assms(1)] unfolding e_def
    by (metis bitlen_eq_zero_iff bitlen_nonneg diff_ge_0_iff_ge int_one_le_iff_zero_less
        le_less not_less)
  have e23: "e \<le> 23"
    using assms(2) bitlen_le_iff_power [of n 24] unfolding e_def by simp
  have p24: "24 \<le> p" unfolding p_def by (rule precision_ge_24)
  have il: "ilog2 (of_int n) = e"
    using assms(1) by (simp add: ilog2_def e_def)
  define k where "k = nat (int p - 1 - e)"
  have kk: "int p - 1 - e = int k" "e - (int p - 1) = - int k"
    using e23 p24 unfolding k_def by simp_all
  have ulp: "pow2 (e - (int p - 1)) = 1 / 2 ^ k"
    unfolding kk by (simp add: pow2_def)
  have m: "round_half_even (real_of_int n * 2 ^ k) = n * 2 ^ k"
  proof -
    have "real_of_int n * 2 ^ k = of_int (n * 2 ^ k)"
      by simp
    then show ?thesis
      by (simp only: round_half_even_of_int)
  qed
  have "n < 2 ^ nat (e + 1)"
    using bl(2) unfolding e_def by simp
  then have "n * 2 ^ k < 2 ^ nat (e + 1) * 2 ^ k"
    by simp
  also have "\<dots> = 2 ^ (nat (e + 1) + k)"
    by (simp add: power_add)
  also have "nat (e + 1) + k = p"
    using e0 e23 p24 unfolding k_def by simp
  finally have mlt: "n * 2 ^ k < 2 ^ p" .
  have emx: "e < emax fmt"
    using e23 emax_ge_127 [of fmt] by simp
  have mx: "max e (1 - emax fmt) = e"
    using e0 emax_ge_127 [of fmt] by simp
  show ?thesis
    using assms(1) mlt emx
    by (simp add: rnd_def il mx ulp [unfolded p_def] m Let_def p_def)
qed

lemma ilog2_minus [simp]: "ilog2 (- q) = ilog2 q"
  by (simp add: ilog2_def)

lemma rnd_minus: "rnd fmt (- q) = fneg (rnd fmt q)"
proof -
  consider "q = 0" | "0 < q" | "q < 0" by linarith
  then show ?thesis
  proof cases
    case 1
    then show ?thesis by (simp add: rnd_def)
  next
    case 2
    then show ?thesis
      unfolding rnd_def Let_def by auto
  next
    case 3
    then show ?thesis
      unfolding rnd_def Let_def by auto
  qed
qed

lemma py_float_exact:
  assumes "\<bar>i\<bar> < 2 ^ 24"
  shows "py_float fmt i = Fin (of_int i)"
proof -
  consider "i = 0" | "0 < i" | "i < 0" by linarith
  then show ?thesis
  proof cases
    case 1
    then show ?thesis by (simp add: py_float_def)
  next
    case 2
    then show ?thesis
      using assms rnd_nat_exact [of i fmt] by (simp add: py_float_def)
  next
    case 3
    then have "rnd fmt (of_int (- i)) = Fin (of_int (- i))"
      using assms rnd_nat_exact [of "- i" fmt] by simp
    then have "fneg (rnd fmt (of_int i)) = Fin (- of_int i)"
      by (simp add: rnd_minus)
    then show ?thesis
      by (cases "rnd fmt (of_int i)") (simp_all add: py_float_def)
  qed
qed


lemma rnd_numeral_exact [simp]:
  "(numeral n :: int) < 2 ^ 24 \<Longrightarrow> rnd fmt (numeral n) = Fin (numeral n)"
  using rnd_nat_exact [of "numeral n" fmt] by simp

lemma rnd_half [simp]: "rnd fmt (1 / 2) = Fin (1 / 2)"
  by (cases fmt) (simp_all add: rnd_eval)

lemma py_float_1000: "py_float fmt 1000 = Fin 1000"
  using py_float_exact [of 1000 fmt] by simp

subsection \<open>Raw register read\<close>

lemma uint_8_bounds: "0 \<le> uint (b :: 8 word) \<and> uint b < 256"
  using uint_lt2p [of b] by simp

lemma high_low_value:
  "push_bit 8 (uint (high :: 8 word)) OR uint (low :: 8 word) = uint high * 256 + uint low"
proof -
  have "push_bit 8 (uint high) AND uint low = 0"
    by (auto simp add: bit_eq_iff bit_simps dest: bit_imp_le_length)
  then have "push_bit 8 (uint high) + uint low = push_bit 8 (uint high) OR uint low"
    by (rule disjunctive_add_eq_or)
  then show ?thesis
    by (simp add: push_bit_eq_mult)
qed

lemma uint_word_cat_8_8:
  "uint (word_cat (high :: 8 word) (low :: 8 word) :: 16 word) = uint high * 256 + uint low"
proof -
  have "uint high * 256 + uint low < 65536" "0 \<le> uint high * 256 + uint low"
    using uint_8_bounds [of high] uint_8_bounds [of low] by auto
  then have "take_bit 16 (uint high * 256 + uint low) = uint high * 256 + uint low"
    by (simp add: take_bit_int_eq_self)
  moreover have "take_bit 8 (uint low) = uint low"
    using uint_8_bounds [of low] by (simp add: take_bit_int_eq_self)
  moreover have "uint (word_cat high low :: 16 word)
      = take_bit 16 (take_bit 8 (uint low) + push_bit 8 (uint high))"
    by (simp only: word_cat_eq' uint_word_of_int_eq concat_bit_eq len_of_numeral_defs)
       simp
  ultimately show ?thesis
    by (simp add: push_bit_eq_mult add.commute)
qed

lemma sint_16: "sint (w :: 16 word) = (if 32768 \<le> uint w then uint w - 65536 else uint w)"
proof -
  have b: "0 \<le> uint w" "uint w < 65536"
    using uint_lt2p [of w] by simp_all
  have s: "sint w = (uint w + 32768) mod 65536 - 32768"
    by (simp add: sint_uint signed_take_bit_eq_take_bit_shift take_bit_eq_mod)
  show ?thesis
  proof (cases "32768 \<le> uint w")
    case True
    have "uint w + 32768 = uint w - 32768 + 65536"
      by arith
    then have "(uint w + 32768) mod 65536 = (uint w - 32768 + 65536) mod 65536"
      by (rule arg_cong)
    also have "\<dots> = (uint w - 32768) mod 65536"
      by (rule mod_add_self2)
    also have "\<dots> = uint w - 32768"
      using True b by simp
    finally show ?thesis
      using True s by simp
  next
    case False
    then have "(uint w + 32768) mod 65536 = uint w + 32768"
      using b by simp
    then show ?thesis
      using False s by simp
  qed
qed

lemma read_raw_data_value:
  assumes "i2c_bus w (i2c_count w) (addr self) reg = Some high"
    and "i2c_bus w (Suc (i2c_count w)) (addr self) (reg + 1) = Some low"
  shows "read_raw_data self reg w =
           (Inr (if 32768 \<le> uint high * 256 + uint low
                 then uint high * 256 + uint low - 65536
                 else uint high * 256 + uint low),
            w\<lparr>i2c_count := i2c_count w + 2\<rparr>)"
  using assms
  by (simp add: read_raw_data_def seq_def readfrom_mem_def ret_def high_low_value Let_def)

text \<open>
  C1. When the two single-byte reads at \<open>reg\<close> and \<open>reg + 1\<close> return the bytes \<open>high\<close> and
  \<open>low\<close>, \<^verbatim>\<open>_read_raw_data\<close> returns the big-endian unsigned value \<open>256 * high + low\<close>
  (which is \<^verbatim>\<open>(high << 8) | low\<close>), minus 65536 when that value is at least 32768. This
  is the two's-complement reading of the 16-bit word \<open>high\<close>\<open>low\<close>, and it lies in
  \<open>[-32768, 32767]\<close>.
\<close>

theorem read_raw_data_twos_complement:
  assumes "i2c_bus w (i2c_count w) (addr self) reg = Some high"
    and "i2c_bus w (Suc (i2c_count w)) (addr self) (reg + 1) = Some low"
  shows "fst (read_raw_data self reg w) =
           Inr (if 32768 \<le> uint high * 256 + uint low
                then uint high * 256 + uint low - 65536
                else uint high * 256 + uint low)
         \<and> uint high * 256 + uint low = push_bit 8 (uint high) OR uint low
         \<and> fst (read_raw_data self reg w) = Inr (sint (word_cat high low :: 16 word))
         \<and> (\<exists>v. fst (read_raw_data self reg w) = Inr v \<and> - 32768 \<le> v \<and> v \<le> 32767)"
proof -
  let ?u = "uint high * 256 + uint low"
  have r: "fst (read_raw_data self reg w) = Inr (if 32768 \<le> ?u then ?u - 65536 else ?u)"
    using read_raw_data_value [OF assms] by simp
  have s: "sint (word_cat high low :: 16 word) = (if 32768 \<le> ?u then ?u - 65536 else ?u)"
    by (simp only: sint_16 uint_word_cat_8_8)
  have "0 \<le> uint high" "uint high < 256" "0 \<le> uint low" "uint low < 256"
    using uint_8_bounds [of high] uint_8_bounds [of low] by simp_all
  then have "- 32768 \<le> (if 32768 \<le> ?u then ?u - 65536 else ?u)
      \<and> (if 32768 \<le> ?u then ?u - 65536 else ?u) \<le> 32767"
    by arith
  with r s show ?thesis
    by (simp add: high_low_value)
qed

theorem read_raw_data_twos_complement_witness:
  "fst (read_raw_data (fresh_mpu Binary32 Map.empty) GYRO_XOUT_H
          (steady_world 0x7F 0xFF (\<lambda>n. 0))) = Inr 32767
   \<and> fst (read_raw_data (fresh_mpu Binary32 Map.empty) GYRO_XOUT_H
          (steady_world 0x80 0x00 (\<lambda>n. 0))) = Inr (- 32768)
   \<and> fst (read_raw_data (fresh_mpu Binary32 Map.empty) GYRO_XOUT_H
          (steady_world 0x00 0x00 (\<lambda>n. 0))) = Inr 0"
  using
    read_raw_data_twos_complement [of "steady_world 0x7F 0xFF (\<lambda>n. 0)"
      "fresh_mpu Binary32 Map.empty" GYRO_XOUT_H "0x7F" "0xFF"]
    read_raw_data_twos_complement [of "steady_world 0x80 0x00 (\<lambda>n. 0)"
      "fresh_mpu Binary32 Map.empty" GYRO_XOUT_H "0x80" "0x00"]
    read_raw_data_twos_complement [of "steady_world 0x00 0x00 (\<lambda>n. 0)"
      "fresh_mpu Binary32 Map.empty" GYRO_XOUT_H "0x00" "0x00"]
  by (simp add: steady_world_def fresh_mpu_def GYRO_XOUT_H_def)

lemma py_truediv_Inr: "b \<noteq> Fin 0 \<Longrightarrow> py_truediv fmt a b = Inr (fdiv fmt a b)"
  by (simp add: py_truediv_def)

lemma getitem_Some: "d k = Some v \<Longrightarrow> getitem d k = Inr v"
  by (simp add: getitem_def)

lemma float_literal_int:
  "\<bar>i\<bar> < 2 ^ 24 \<Longrightarrow> float_literal fmt (of_int i) = Fin (of_int i)"
  using py_float_exact [of i fmt] by (simp add: float_literal_def py_float_def)

lemma read_raw_data_range:
  assumes "read_raw_data self reg w = (Inr v, w')"
  shows "- 32768 \<le> v \<and> v \<le> 32767"
proof -
  obtain high where h: "i2c_bus w (i2c_count w) (addr self) reg = Some high"
    using assms
    by (cases "i2c_bus w (i2c_count w) (addr self) reg")
       (auto simp add: read_raw_data_def seq_def readfrom_mem_def)
  obtain low where l: "i2c_bus w (Suc (i2c_count w)) (addr self) (reg + 1) = Some low"
    using assms h
    by (cases "i2c_bus w (Suc (i2c_count w)) (addr self) (reg + 1)")
       (auto simp add: read_raw_data_def seq_def readfrom_mem_def)
  define u where "u = uint high * 256 + uint low"
  have "0 \<le> u" "u < 65536"
    using uint_8_bounds [of high] uint_8_bounds [of low] unfolding u_def by auto
  moreover have "v = (if 32768 \<le> u then u - 65536 else u)"
    using read_raw_data_value [OF h l] assms unfolding u_def by simp
  ultimately show ?thesis
    by (cases "32768 \<le> u") simp_all
qed

lemma py_float_raw:
  assumes "read_raw_data self reg w = (Inr v, w')"
  shows "py_float fmt v = Fin (of_int v)"
proof -
  have "\<bar>v\<bar> < 2 ^ 24"
    using read_raw_data_range [OF assms] by (simp add: abs_if)
  then show ?thesis
    by (rule py_float_exact)
qed

subsection \<open>Angular velocity\<close>

lemma get_omega_value:
  assumes "read_raw_data self GYRO_XOUT_H w = (Inr rx, w1)"
    and "read_raw_data self GYRO_YOUT_H w1 = (Inr ry, w2)"
    and "read_raw_data self GYRO_ZOUT_H w2 = (Inr rz, w3)"
    and "omega_offset self ''x'' = Some ox"
    and "omega_offset self ''y'' = Some oy"
    and "omega_offset self ''z'' = Some oz"
  shows "get_omega fmt self w =
           (if omega_offset_sensetivity_factor self = Fin 0
            then (Inl ZeroDivisionError, w1)
            else (Inr [''x'' \<mapsto> fsub fmt (fdiv fmt (py_float fmt rx) (omega_offset_sensetivity_factor self)) ox,
                       ''y'' \<mapsto> fsub fmt (fdiv fmt (py_float fmt ry) (omega_offset_sensetivity_factor self)) oy,
                       ''z'' \<mapsto> fsub fmt (fdiv fmt (py_float fmt rz) (omega_offset_sensetivity_factor self)) oz],
                  w3))"
  using assms
  by (simp add: get_omega_def seq_def lift_def ret_def py_truediv_def getitem_Some)

text \<open>
  C3, as the specification states it, holds in every state of the driver. The sensitivity
  factor is whatever \<^verbatim>\<open>set_gyro_sensitivity\<close> was given, zero included, and \<^verbatim>\<open>get_omega\<close>
  divides by it: with the factor 0.0 the call raises \<^verbatim>\<open>ZeroDivisionError\<close> although the
  register reads succeed. The raw value read here is 0, the value of the factor, so the
  round trip does not yield 1.0 either.
\<close>

theorem get_omega_zero_sensitivity:
  "fst (read_raw_data
          (set_gyro_sensitivity
             (fresh_mpu Binary32 [''x'' \<mapsto> Fin 0, ''y'' \<mapsto> Fin 0, ''z'' \<mapsto> Fin 0]) (Fin 0))
          GYRO_XOUT_H (steady_world 0 0 (\<lambda>n. 0))) = Inr 0
   \<and> get_omega Binary32
       (set_gyro_sensitivity
          (fresh_mpu Binary32 [''x'' \<mapsto> Fin 0, ''y'' \<mapsto> Fin 0, ''z'' \<mapsto> Fin 0]) (Fin 0))
       (steady_world 0 0 (\<lambda>n. 0))
     = (Inl ZeroDivisionError, (steady_world 0 0 (\<lambda>n. 0))\<lparr>i2c_count := 2\<rparr>)"
  by (simp add: get_omega_def steady_world_def fresh_mpu_def set_gyro_sensitivity_def
      read_raw_data_def seq_def readfrom_mem_def ret_def lift_def py_truediv_def
      GYRO_XOUT_H_def)

text \<open>
  C3, amended. When the three raw reads succeed and the stored offset has the three axis
  keys, \<^verbatim>\<open>get_omega\<close> raises \<^verbatim>\<open>ZeroDivisionError\<close> if the gyro sensitivity factor is zero,
  and otherwise returns for each axis the raw register value divided by the sensitivity
  factor, minus the stored offset of that axis. Consequently a reading that is 1.0 before
  the correction gives 0.0 with an offset of 1.0, and after \<^verbatim>\<open>set_gyro_sensitivity(f)\<close> a raw
  value equal to \<open>f\<close>, not zero, gives exactly 1.0 before the bias is subtracted.
\<close>

theorem get_omega_scaled_minus_bias:
  assumes "read_raw_data self GYRO_XOUT_H w = (Inr rx, w1)"
    and "read_raw_data self GYRO_YOUT_H w1 = (Inr ry, w2)"
    and "read_raw_data self GYRO_ZOUT_H w2 = (Inr rz, w3)"
    and "omega_offset self ''x'' = Some ox"
    and "omega_offset self ''y'' = Some oy"
    and "omega_offset self ''z'' = Some oz"
  shows "get_omega fmt self w =
           (if omega_offset_sensetivity_factor self = Fin 0
            then (Inl ZeroDivisionError, w1)
            else (Inr [''x'' \<mapsto> fsub fmt (fdiv fmt (py_float fmt rx) (omega_offset_sensetivity_factor self)) ox,
                       ''y'' \<mapsto> fsub fmt (fdiv fmt (py_float fmt ry) (omega_offset_sensetivity_factor self)) oy,
                       ''z'' \<mapsto> fsub fmt (fdiv fmt (py_float fmt rz) (omega_offset_sensetivity_factor self)) oz],
                  w3))
         \<and> (fdiv fmt (py_float fmt rx) (omega_offset_sensetivity_factor self) = Fin 1 \<and> ox = Fin 1
              \<longrightarrow> fsub fmt (fdiv fmt (py_float fmt rx) (omega_offset_sensetivity_factor self)) ox = Fin 0)
         \<and> (rx \<noteq> 0 \<longrightarrow>
              fdiv fmt (py_float fmt rx) (Fin (of_int rx)) = Fin 1
              \<and> get_omega fmt (set_gyro_sensitivity self (Fin (of_int rx))) w =
                  (Inr [''x'' \<mapsto> fsub fmt (Fin 1) ox,
                        ''y'' \<mapsto> fsub fmt (fdiv fmt (py_float fmt ry) (Fin (of_int rx))) oy,
                        ''z'' \<mapsto> fsub fmt (fdiv fmt (py_float fmt rz) (Fin (of_int rx))) oz],
                   w3))"
proof -
  let ?self' = "set_gyro_sensitivity self (Fin (of_int rx))"
  have one: "fdiv fmt (py_float fmt rx) (Fin (of_int rx)) = Fin 1" if "rx \<noteq> 0"
    using that py_float_raw [OF assms(1), of fmt] by simp
  have r: "read_raw_data ?self' GYRO_XOUT_H w = (Inr rx, w1)"
    "read_raw_data ?self' GYRO_YOUT_H w1 = (Inr ry, w2)"
    "read_raw_data ?self' GYRO_ZOUT_H w2 = (Inr rz, w3)"
    using assms(1-3) by (simp_all add: read_raw_data_def set_gyro_sensitivity_def)
  have o: "omega_offset ?self' ''x'' = Some ox" "omega_offset ?self' ''y'' = Some oy"
    "omega_offset ?self' ''z'' = Some oz"
    using assms(4-6) by (simp_all add: set_gyro_sensitivity_def)
  have s: "omega_offset_sensetivity_factor ?self' = Fin (of_int rx)"
    by (simp add: set_gyro_sensitivity_def)
  have trip: "get_omega fmt ?self' w =
                  (Inr [''x'' \<mapsto> fsub fmt (Fin 1) ox,
                        ''y'' \<mapsto> fsub fmt (fdiv fmt (py_float fmt ry) (Fin (of_int rx))) oy,
                        ''z'' \<mapsto> fsub fmt (fdiv fmt (py_float fmt rz) (Fin (of_int rx))) oz],
                   w3)" if "rx \<noteq> 0"
    using that one [OF that] unfolding get_omega_value [OF r o] s by simp
  show ?thesis
    using get_omega_value [OF assms, of fmt] one trip by simp
qed

theorem get_omega_scaled_minus_bias_witness:
  "get_omega Binary32
     (set_gyro_sensitivity
        (fresh_mpu Binary32 [''x'' \<mapsto> Fin 1, ''y'' \<mapsto> Fin 0, ''z'' \<mapsto> Fin 0]) (Fin 100))
     (steady_world 0 100 (\<lambda>n. 0))
   = (Inr [''x'' \<mapsto> Fin 0, ''y'' \<mapsto> Fin 1, ''z'' \<mapsto> Fin 1],
      (steady_world 0 100 (\<lambda>n. 0))\<lparr>i2c_count := 6\<rparr>)"
  using get_omega_scaled_minus_bias [where fmt = Binary32
      and self = "fresh_mpu Binary32 [''x'' \<mapsto> Fin 1, ''y'' \<mapsto> Fin 0, ''z'' \<mapsto> Fin 0]"
      and w = "steady_world 0 100 (\<lambda>n. 0)"
      and ?w1.0 = "(steady_world 0 100 (\<lambda>n. 0))\<lparr>i2c_count := 2\<rparr>"
      and ?w2.0 = "(steady_world 0 100 (\<lambda>n. 0))\<lparr>i2c_count := 4\<rparr>"
      and ?w3.0 = "(steady_world 0 100 (\<lambda>n. 0))\<lparr>i2c_count := 6\<rparr>"
      and rx = 100 and ry = 100 and rz = 100
      and ox = "Fin 1" and oy = "Fin 0" and oz = "Fin 0"]
  by (simp add: steady_world_def fresh_mpu_def read_raw_data_def
      seq_def readfrom_mem_def ret_def GYRO_XOUT_H_def GYRO_YOUT_H_def GYRO_ZOUT_H_def
      py_float_exact fsub_def)

subsection \<open>Acceleration\<close>

text \<open>
  C8, as the specification states it, holds in every state of the driver. The accel
  sensitivity factor is whatever \<^verbatim>\<open>set_accel_sensitivity\<close> was given, zero included: with
  the factor 0.0 \<^verbatim>\<open>get_accel\<close> raises \<^verbatim>\<open>ZeroDivisionError\<close> although the register reads
  succeed, here with the raw value 16384.
\<close>

theorem get_accel_zero_sensitivity:
  "fst (read_raw_data (set_accel_sensitivity (fresh_mpu Binary32 Map.empty) (Fin 0))
          ACCEL_XOUT_H (steady_world 0x40 0x00 (\<lambda>n. 0))) = Inr 16384
   \<and> get_accel Binary32 (set_accel_sensitivity (fresh_mpu Binary32 Map.empty) (Fin 0))
       (steady_world 0x40 0x00 (\<lambda>n. 0))
     = (Inl ZeroDivisionError, (steady_world 0x40 0x00 (\<lambda>n. 0))\<lparr>i2c_count := 2\<rparr>)"
  by (simp add: get_accel_def steady_world_def fresh_mpu_def set_accel_sensitivity_def
      read_raw_data_def seq_def readfrom_mem_def ret_def lift_def py_truediv_def
      ACCEL_XOUT_H_def)

text \<open>
  C8, amended. When the three raw reads succeed, \<^verbatim>\<open>get_accel\<close> raises
  \<^verbatim>\<open>ZeroDivisionError\<close> if the accel sensitivity factor is zero, and otherwise returns for
  each axis the raw register value divided by the accel sensitivity factor. No bias takes
  part: the result does not depend on the stored gyro offset. With the default factor
  16384.0 a raw value of 16384 gives exactly 1.0.
\<close>

theorem get_accel_scaled:
  assumes "read_raw_data self ACCEL_XOUT_H w = (Inr rx, w1)"
    and "read_raw_data self ACCEL_YOUT_H w1 = (Inr ry, w2)"
    and "read_raw_data self ACCEL_ZOUT_H w2 = (Inr rz, w3)"
  shows "get_accel fmt self w =
           (if accel_offset_sensetivity_factor self = Fin 0
            then (Inl ZeroDivisionError, w1)
            else (Inr [''x'' \<mapsto> fdiv fmt (py_float fmt rx) (accel_offset_sensetivity_factor self),
                       ''y'' \<mapsto> fdiv fmt (py_float fmt ry) (accel_offset_sensetivity_factor self),
                       ''z'' \<mapsto> fdiv fmt (py_float fmt rz) (accel_offset_sensetivity_factor self)],
                  w3))
         \<and> get_accel fmt (self\<lparr>omega_offset := offset\<rparr>) w = get_accel fmt self w
         \<and> (accel_offset_sensetivity_factor self = float_literal fmt 16384 \<and> rx = 16384
              \<longrightarrow> fdiv fmt (py_float fmt rx) (accel_offset_sensetivity_factor self) = Fin 1)"
proof -
  have "get_accel fmt self w =
           (if accel_offset_sensetivity_factor self = Fin 0
            then (Inl ZeroDivisionError, w1)
            else (Inr [''x'' \<mapsto> fdiv fmt (py_float fmt rx) (accel_offset_sensetivity_factor self),
                       ''y'' \<mapsto> fdiv fmt (py_float fmt ry) (accel_offset_sensetivity_factor self),
                       ''z'' \<mapsto> fdiv fmt (py_float fmt rz) (accel_offset_sensetivity_factor self)],
                  w3))"
    using assms
    by (simp add: get_accel_def seq_def lift_def ret_def py_truediv_def)
  moreover have "get_accel fmt (self\<lparr>omega_offset := offset\<rparr>) w = get_accel fmt self w"
    by (simp add: get_accel_def read_raw_data_def)
  moreover have "fdiv fmt (py_float fmt 16384) (float_literal fmt 16384) = Fin 1"
    using py_float_exact [of 16384 fmt] float_literal_int [of 16384 fmt] by simp
  ultimately show ?thesis
    by simp
qed

theorem get_accel_scaled_witness:
  "get_accel Binary32 (fresh_mpu Binary32 Map.empty) (steady_world 0x40 0x00 (\<lambda>n. 0))
   = (Inr [''x'' \<mapsto> Fin 1, ''y'' \<mapsto> Fin 1, ''z'' \<mapsto> Fin 1],
      (steady_world 0x40 0x00 (\<lambda>n. 0))\<lparr>i2c_count := 6\<rparr>)"
  using get_accel_scaled [where fmt = Binary32
      and self = "fresh_mpu Binary32 Map.empty"
      and w = "steady_world 0x40 0x00 (\<lambda>n. 0)"
      and ?w1.0 = "(steady_world 0x40 0x00 (\<lambda>n. 0))\<lparr>i2c_count := 2\<rparr>"
      and ?w2.0 = "(steady_world 0x40 0x00 (\<lambda>n. 0))\<lparr>i2c_count := 4\<rparr>"
      and ?w3.0 = "(steady_world 0x40 0x00 (\<lambda>n. 0))\<lparr>i2c_count := 6\<rparr>"
      and rx = 16384 and ry = 16384 and rz = 16384]
    float_literal_int [of 16384 Binary32]
  by (simp add: steady_world_def fresh_mpu_def read_raw_data_def
      seq_def readfrom_mem_def ret_def ACCEL_XOUT_H_def ACCEL_YOUT_H_def ACCEL_ZOUT_H_def
      py_float_exact)

subsection \<open>Setting the bias offset\<close>

text \<open>
  C5. \<^verbatim>\<open>set_gyro_offset\<close> raises \<^verbatim>\<open>ValueError\<close> exactly when one of the keys \<^verbatim>\<open>'x'\<close>,
  \<^verbatim>\<open>'y'\<close>, \<^verbatim>\<open>'z'\<close> is missing from the mapping, and then leaves the object as it was;
  otherwise it stores the mapping as the new offset, whatever its values are.
\<close>

theorem set_gyro_offset_checks_keys:
  "set_gyro_offset self offset =
     (if offset ''x'' = None \<or> offset ''y'' = None \<or> offset ''z'' = None
      then (Inl ValueError, self)
      else (Inr (), self\<lparr>omega_offset := offset\<rparr>))"
  by (simp add: set_gyro_offset_def)

text \<open>
  C6, as the specification states it, asks for exactly the three axis keys. A mapping with
  a fourth key is accepted all the same.
\<close>

theorem set_gyro_offset_extra_key_accepted:
  "fst (set_gyro_offset (fresh_mpu Binary32 Map.empty)
          [''x'' \<mapsto> Fin 0, ''y'' \<mapsto> Fin 0, ''z'' \<mapsto> Fin 0, ''w'' \<mapsto> Fin 0]) = Inr ()
   \<and> dom [''x'' \<mapsto> Fin 0, ''y'' \<mapsto> Fin 0, ''z'' \<mapsto> Fin 0, ''w'' \<mapsto> Fin 0]
       \<noteq> {''x'', ''y'', ''z''}"
proof -
  let ?offset = "[''x'' \<mapsto> Fin 0, ''y'' \<mapsto> Fin 0, ''z'' \<mapsto> Fin 0, ''w'' \<mapsto> Fin 0]"
  have "''w'' \<in> dom ?offset"
    by simp
  moreover have "''w'' \<notin> {''x'', ''y'', ''z''}"
    by simp
  ultimately have "dom ?offset \<noteq> {''x'', ''y'', ''z''}"
    by metis
  moreover have "fst (set_gyro_offset (fresh_mpu Binary32 Map.empty) ?offset) = Inr ()"
    by (simp add: set_gyro_offset_def)
  ultimately show ?thesis
    by (rule conjI [rotated])
qed

text \<open>
  C6, amended. \<^verbatim>\<open>set_gyro_offset\<close> accepts a mapping exactly when its keys include
  \<^verbatim>\<open>'x'\<close>, \<^verbatim>\<open>'y'\<close> and \<^verbatim>\<open>'z'\<close>; further keys are accepted and stored with the rest.
\<close>

theorem set_gyro_offset_accepts_supersets:
  "set_gyro_offset self offset =
     (if {''x'', ''y'', ''z''} \<subseteq> dom offset
      then (Inr (), self\<lparr>omega_offset := offset\<rparr>)
      else (Inl ValueError, self))"
  by (auto simp add: set_gyro_offset_def)

subsection \<open>The integration loop\<close>

lemma theta_loop_frame:
  "theta_loop fmt omega dt axes self = (r, self') \<Longrightarrow>
     last_update self' = last_update self \<and> omega_offset self' = omega_offset self
     \<and> addr self' = addr self
     \<and> omega_offset_sensetivity_factor self' = omega_offset_sensetivity_factor self
     \<and> accel_offset_sensetivity_factor self' = accel_offset_sensetivity_factor self"
proof (induction axes arbitrary: self)
  case Nil
  then show ?case by simp
next
  case (Cons axis axes)
  show ?case
  proof (cases "getitem (theta_f self) axis")
    case (Inl e)
    with Cons.prems show ?thesis by simp
  next
    case t: (Inr t)
    show ?thesis
    proof (cases "getitem omega axis")
      case (Inl e)
      with Cons.prems t show ?thesis by simp
    next
      case om: (Inr om)
      let ?t' = "fadd fmt t (fmul fmt om dt)"
      let ?self1 = "self\<lparr>theta_f := (theta_f self)(axis \<mapsto> ?t')\<rparr>"
      show ?thesis
      proof (cases "py_int ?t'")
        case (Inl e)
        with Cons.prems t om show ?thesis by (auto simp add: Let_def)
      next
        case (Inr i)
        with Cons.prems t om
        have "theta_loop fmt omega dt axes (?self1\<lparr>theta := (theta ?self1)(axis \<mapsto> i)\<rparr>)
              = (r, self')"
          by (simp add: Let_def)
        from Cons.IH [OF this] show ?thesis by simp
      qed
    qed
  qed
qed





lemma theta_loop_stops:
  assumes "theta_f self ''x'' = Some tx" and "theta_f self ''y'' = Some ty"
    and "theta_f self ''z'' = Some tz"
    and "omega ''x'' = Some ox" and "omega ''y'' = Some oy" and "omega ''z'' = Some oz"
    and "nx = fadd fmt tx (fmul fmt ox dt)"
    and "ny = fadd fmt ty (fmul fmt oy dt)"
    and "nz = fadd fmt tz (fmul fmt oz dt)"
  shows "py_int nx = Inl e \<Longrightarrow>
           theta_loop fmt omega dt [''x'', ''y'', ''z''] self =
             (Inl e, self\<lparr>theta_f := (theta_f self)(''x'' \<mapsto> nx)\<rparr>)"
    and "py_int nx = Inr ix \<Longrightarrow> py_int ny = Inl e \<Longrightarrow>
           theta_loop fmt omega dt [''x'', ''y'', ''z''] self =
             (Inl e, self\<lparr>theta := (theta self)(''x'' \<mapsto> ix),
                          theta_f := (theta_f self)(''x'' \<mapsto> nx, ''y'' \<mapsto> ny)\<rparr>)"
    and "py_int nx = Inr ix \<Longrightarrow> py_int ny = Inr iy \<Longrightarrow> py_int nz = Inl e \<Longrightarrow>
           theta_loop fmt omega dt [''x'', ''y'', ''z''] self =
             (Inl e, self\<lparr>theta := (theta self)(''x'' \<mapsto> ix, ''y'' \<mapsto> iy),
                          theta_f := (theta_f self)(''x'' \<mapsto> nx, ''y'' \<mapsto> ny, ''z'' \<mapsto> nz)\<rparr>)"
    and "py_int nx = Inr ix \<Longrightarrow> py_int ny = Inr iy \<Longrightarrow> py_int nz = Inr iz \<Longrightarrow>
           theta_loop fmt omega dt [''x'', ''y'', ''z''] self =
             (Inr (), self\<lparr>theta := (theta self)(''x'' \<mapsto> ix, ''y'' \<mapsto> iy, ''z'' \<mapsto> iz),
                           theta_f := (theta_f self)(''x'' \<mapsto> nx, ''y'' \<mapsto> ny, ''z'' \<mapsto> nz)\<rparr>)"
  using assms by (simp_all add: getitem_def Let_def)


subsection \<open>Angle integration\<close>

text \<open>
  \<^verbatim>\<open>ticks_diff\<close> is safe across a wrap-around: when the counter has advanced by \<open>d\<close>
  milliseconds, less than half the period, the difference of the two wrapped readings
  is \<open>d\<close>.
\<close>

lemma ticks_diff_wraparound:
  assumes "0 \<le> d" and "d < TICKS_PERIOD w div 2"
  shows "ticks_diff w ((t + d) mod TICKS_PERIOD w) (t mod TICKS_PERIOD w) = d"
proof -
  let ?P = "TICKS_PERIOD w"
  have "((t + d) mod ?P - t mod ?P + ?P div 2) mod ?P
      = (((t + d) mod ?P - t mod ?P) mod ?P + ?P div 2) mod ?P"
    by (simp only: mod_add_left_eq)
  also have "\<dots> = ((t + d - t) mod ?P + ?P div 2) mod ?P"
    by (simp only: mod_diff_eq)
  also have "\<dots> = (d + ?P div 2) mod ?P"
    by (simp add: mod_add_left_eq)
  also have "\<dots> = d + ?P div 2"
    using assms by (intro mod_pos_pos_trivial) auto
  finally show ?thesis
    by (simp add: ticks_diff_def)
qed


lemma ticks_diff_clock_count [simp]:
  "ticks_diff (w\<lparr>clock_count := n\<rparr>) a b = ticks_diff w a b"
  by (simp add: ticks_diff_def)

lemma update_theta_unfold:
  "update_theta fmt self w =
     (case get_omega fmt (self\<lparr>last_update := clock w (clock_count w)\<rparr>)
             (w\<lparr>clock_count := Suc (clock_count w)\<rparr>) of
        (Inl e, w2) \<Rightarrow> (Inl e, self\<lparr>last_update := clock w (clock_count w)\<rparr>, w2)
      | (Inr omega, w2) \<Rightarrow>
          (case theta_loop fmt omega
                  (fdiv fmt (py_float fmt (ticks_diff w (clock w (clock_count w)) (last_update self)))
                     (Fin 1000))
                  [''x'', ''y'', ''z''] (self\<lparr>last_update := clock w (clock_count w)\<rparr>) of
             (r, self2) \<Rightarrow> (r, self2, w2)))"
  by (simp add: update_theta_def ticks_ms_def py_truediv_def py_float_1000 Let_def
      split: prod.splits sum.splits)

lemma update_theta_last_update:
  "last_update (fst (snd (update_theta fmt self w))) = clock w (clock_count w)"
proof -
  let ?self1 = "self\<lparr>last_update := clock w (clock_count w)\<rparr>"
  let ?w1 = "w\<lparr>clock_count := Suc (clock_count w)\<rparr>"
  obtain r w2 where g: "get_omega fmt ?self1 ?w1 = (r, w2)"
    by (cases "get_omega fmt ?self1 ?w1")
  show ?thesis
  proof (cases r)
    case (Inl e)
    with g show ?thesis by (simp add: update_theta_unfold)
  next
    case (Inr omega)
    let ?dt = "fdiv fmt (py_float fmt (ticks_diff w (clock w (clock_count w)) (last_update self)))
                     (Fin 1000)"
    obtain r2 self2 where t: "theta_loop fmt omega ?dt [''x'', ''y'', ''z''] ?self1 = (r2, self2)"
      by (cases "theta_loop fmt omega ?dt [''x'', ''y'', ''z''] ?self1")
    from theta_loop_frame [OF t] have "last_update self2 = clock w (clock_count w)"
      by simp
    with g Inr t show ?thesis by (simp add: update_theta_unfold)
  qed
qed



lemma get_theta_unfold:
  "get_theta fmt self w =
     (case update_theta fmt self w of
        (Inl e, s) \<Rightarrow> (Inl e, s)
      | (Inr u, s) \<Rightarrow> (Inr (theta (fst s)), s))"
  by (simp add: get_theta_def split: prod.splits sum.splits)

lemma get_theta_state: "snd (get_theta fmt self w) = snd (update_theta fmt self w)"
  by (simp add: get_theta_def split: prod.splits sum.splits)


lemma get_omega_keys:
  assumes "get_omega fmt self w = (Inr omega, w')"
  shows "\<exists>gx gy gz. omega = [''x'' \<mapsto> gx, ''y'' \<mapsto> gy, ''z'' \<mapsto> gz]"
  using assms
  by (auto simp add: get_omega_def seq_def lift_def ret_def split: prod.splits sum.splits)

lemma rnd_binary32_tie: "rnd Binary32 16777221 = Fin 16777220"
  by (simp add: rnd_eval)

lemma rnd_binary32_2p24: "rnd Binary32 16777216 = Fin 16777216"
  by (simp add: rnd_eval)

lemma rnd_binary32_2p25: "rnd Binary32 33554432 = Fin 33554432"
  by (simp add: rnd_eval)

text \<open>
  C2, as the specification states it, has every call add \<open>omega * dt\<close> to the accumulator
  of each axis, and a call with \<open>omega.x = 10.0\<close> and \<open>dt = 0.5\<close> advance the accumulator
  by exactly 5.0. The addition is a floating-point addition. A fresh binary32 driver with
  the offset \<open>- 2 ^ 25\<close> on \<open>x\<close> has the accumulator 16777216.0 after one \<^verbatim>\<open>update_theta\<close>
  half a second later; with the offset then set to -10.0, so that \<open>omega.x\<close> is 10.0, the
  \<^verbatim>\<open>get_theta\<close> of another half second later leaves 16777220.0, an advance of 4.0. And a
  call can raise in the middle of the loop: with an infinite angular velocity on \<open>x\<close> the
  new accumulator of \<open>x\<close> is infinite, \<^verbatim>\<open>int\<close> raises \<^verbatim>\<open>OverflowError\<close>, and \<open>y\<close> stays at
  0.0 although \<open>omega.y * dt\<close> is 5.0.
\<close>

theorem update_theta_advance_rounds:
  "theta_f (fst (foldl (do_call Binary32)
      (fresh_mpu Binary32 [''x'' \<mapsto> Fin (- 33554432), ''y'' \<mapsto> Fin 0, ''z'' \<mapsto> Fin 0],
       steady_world 0 0 (\<lambda>n. 500 * (int n + 1)))
      [Update_theta, Set_gyro_offset [''x'' \<mapsto> Fin (- 10), ''y'' \<mapsto> Fin 0, ''z'' \<mapsto> Fin 0]]))
     ''x'' = Some (Fin 16777216)
   \<and> fst (get_omega Binary32
        (fst (foldl (do_call Binary32)
          (fresh_mpu Binary32 [''x'' \<mapsto> Fin (- 33554432), ''y'' \<mapsto> Fin 0, ''z'' \<mapsto> Fin 0],
           steady_world 0 0 (\<lambda>n. 500 * (int n + 1)))
          [Update_theta, Set_gyro_offset [''x'' \<mapsto> Fin (- 10), ''y'' \<mapsto> Fin 0, ''z'' \<mapsto> Fin 0]]))
        (snd (foldl (do_call Binary32)
          (fresh_mpu Binary32 [''x'' \<mapsto> Fin (- 33554432), ''y'' \<mapsto> Fin 0, ''z'' \<mapsto> Fin 0],
           steady_world 0 0 (\<lambda>n. 500 * (int n + 1)))
          [Update_theta, Set_gyro_offset [''x'' \<mapsto> Fin (- 10), ''y'' \<mapsto> Fin 0, ''z'' \<mapsto> Fin 0]])))
     = Inr [''x'' \<mapsto> Fin 10, ''y'' \<mapsto> Fin 0, ''z'' \<mapsto> Fin 0]
   \<and> theta_f (fst (foldl (do_call Binary32)
      (fresh_mpu Binary32 [''x'' \<mapsto> Fin (- 33554432), ''y'' \<mapsto> Fin 0, ''z'' \<mapsto> Fin 0],
       steady_world 0 0 (\<lambda>n. 500 * (int n + 1)))
      [Update_theta, Set_gyro_offset [''x'' \<mapsto> Fin (- 10), ''y'' \<mapsto> Fin 0, ''z'' \<mapsto> Fin 0],
       Get_theta]))
     ''x'' = Some (Fin 16777220)
   \<and> (16777220 :: real) \<noteq> 16777216 + 5
   \<and> fst (update_theta Binary32
        (fresh_mpu Binary32 [''x'' \<mapsto> NInf, ''y'' \<mapsto> Fin (- 10), ''z'' \<mapsto> Fin (- 10)])
        (steady_world 0 0 (\<lambda>n. 500)))
     = Inl OverflowError
   \<and> fst (get_omega Binary32
        (fresh_mpu Binary32 [''x'' \<mapsto> NInf, ''y'' \<mapsto> Fin (- 10), ''z'' \<mapsto> Fin (- 10)])
        (steady_world 0 0 (\<lambda>n. 500)))
     = Inr [''x'' \<mapsto> PInf, ''y'' \<mapsto> Fin 10, ''z'' \<mapsto> Fin 10]
   \<and> theta_f
       (fst (snd (update_theta Binary32
          (fresh_mpu Binary32 [''x'' \<mapsto> NInf, ''y'' \<mapsto> Fin (- 10), ''z'' \<mapsto> Fin (- 10)])
          (steady_world 0 0 (\<lambda>n. 500))))) ''x'' = Some PInf
   \<and> theta_f
       (fst (snd (update_theta Binary32
          (fresh_mpu Binary32 [''x'' \<mapsto> NInf, ''y'' \<mapsto> Fin (- 10), ''z'' \<mapsto> Fin (- 10)])
          (steady_world 0 0 (\<lambda>n. 500))))) ''y'' = Some (Fin 0)"
  by (simp add: update_theta_unfold get_theta_state set_gyro_offset_def steady_world_def
      fresh_mpu_def float_literal_def get_omega_def read_raw_data_def
      seq_def readfrom_mem_def ret_def lift_def getitem_def py_truediv_def fsub_def
      GYRO_XOUT_H_def GYRO_YOUT_H_def GYRO_ZOUT_H_def py_float_exact ticks_diff_def
      trunc_toward_zero_def rnd_binary32_tie rnd_binary32_2p24 rnd_binary32_2p25 Let_def)

text \<open>
  C2, amended. Every call of \<^verbatim>\<open>update_theta\<close> reads the clock, takes \<open>dt\<close> as
  \<^verbatim>\<open>ticks_diff(now, last_update) / 1000\<close> (the difference is the elapsed time also across a
  wrap-around of the counter) and sets \<^verbatim>\<open>last_update\<close> to \<open>now\<close>. When \<^verbatim>\<open>get_omega\<close>
  raises, the call raises the same error and changes nothing else. When \<^verbatim>\<open>get_omega\<close>
  returns, the axes are taken in the order x, y, z: \<^verbatim>\<open>_theta_f[axis]\<close> becomes the
  floating-point sum of \<^verbatim>\<open>_theta_f[axis]\<close> and the floating-point product
  \<^verbatim>\<open>omega[axis] * dt\<close>, and \<^verbatim>\<open>theta[axis]\<close> its truncation; at the first axis whose new
  accumulator is infinite or NaN the call stores that accumulator and raises, leaving
  \<^verbatim>\<open>theta[axis]\<close> and the later axes as they were. \<^verbatim>\<open>get_theta\<close> runs \<^verbatim>\<open>update_theta\<close>,
  leaves the state that it leaves, raises what it raises and otherwise returns the integer
  view. With \<open>omega.x = 10.0\<close> and 500 ms elapsed, \<open>dt\<close> is 0.5, the product is exactly 5.0
  and an accumulator \<open>t\<close> becomes the float nearest to \<open>t + 5\<close>; from 0.0 it is exactly 5.0.
\<close>

theorem update_theta_forward_euler:
  assumes "now = clock w (clock_count w)"
    and "dt = fdiv fmt (py_float fmt (ticks_diff w now (last_update self))) (py_float fmt 1000)"
    and "theta_f self ''x'' = Some tx" and "theta_f self ''y'' = Some ty"
    and "theta_f self ''z'' = Some tz"
    and "get_omega fmt (self\<lparr>last_update := now\<rparr>) (w\<lparr>clock_count := Suc (clock_count w)\<rparr>)
           = (r, w2)"
  shows "last_update (fst (snd (update_theta fmt self w))) = now
         \<and> snd (get_theta fmt self w) = snd (update_theta fmt self w)
         \<and> fst (get_theta fmt self w) =
             (case fst (update_theta fmt self w) of
                Inl e \<Rightarrow> Inl e
              | Inr u \<Rightarrow> Inr (theta (fst (snd (update_theta fmt self w)))))
         \<and> (r = Inl e \<longrightarrow> update_theta fmt self w = (Inl e, self\<lparr>last_update := now\<rparr>, w2))
         \<and> (r = Inr omega \<longrightarrow> (\<exists>ox oy oz. omega = [''x'' \<mapsto> ox, ''y'' \<mapsto> oy, ''z'' \<mapsto> oz]))
         \<and> (r = Inr omega
              \<and> omega ''x'' = Some ox \<and> omega ''y'' = Some oy \<and> omega ''z'' = Some oz
              \<and> nx = fadd fmt tx (fmul fmt ox dt)
              \<and> ny = fadd fmt ty (fmul fmt oy dt)
              \<and> nz = fadd fmt tz (fmul fmt oz dt)
            \<longrightarrow> (py_int nx = Inr ix \<and> py_int ny = Inr iy \<and> py_int nz = Inr iz
                  \<longrightarrow> update_theta fmt self w =
                        (Inr (),
                         self\<lparr>theta := (theta self)(''x'' \<mapsto> ix, ''y'' \<mapsto> iy, ''z'' \<mapsto> iz),
                              theta_f := (theta_f self)(''x'' \<mapsto> nx, ''y'' \<mapsto> ny, ''z'' \<mapsto> nz),
                              last_update := now\<rparr>,
                         w2))
                \<and> (py_int nx = Inl e
                  \<longrightarrow> update_theta fmt self w =
                        (Inl e,
                         self\<lparr>theta_f := (theta_f self)(''x'' \<mapsto> nx), last_update := now\<rparr>,
                         w2))
                \<and> (py_int nx = Inr ix \<and> py_int ny = Inl e
                  \<longrightarrow> update_theta fmt self w =
                        (Inl e,
                         self\<lparr>theta := (theta self)(''x'' \<mapsto> ix),
                              theta_f := (theta_f self)(''x'' \<mapsto> nx, ''y'' \<mapsto> ny),
                              last_update := now\<rparr>,
                         w2))
                \<and> (py_int nx = Inr ix \<and> py_int ny = Inr iy \<and> py_int nz = Inl e
                  \<longrightarrow> update_theta fmt self w =
                        (Inl e,
                         self\<lparr>theta := (theta self)(''x'' \<mapsto> ix, ''y'' \<mapsto> iy),
                              theta_f := (theta_f self)(''x'' \<mapsto> nx, ''y'' \<mapsto> ny, ''z'' \<mapsto> nz),
                              last_update := now\<rparr>,
                         w2)))
         \<and> (0 \<le> d \<and> d < TICKS_PERIOD w div 2 \<and> now = (t0 + d) mod TICKS_PERIOD w
              \<and> last_update self = t0 mod TICKS_PERIOD w
            \<longrightarrow> ticks_diff w now (last_update self) = d)
         \<and> (ticks_diff w now (last_update self) = 500
            \<longrightarrow> dt = Fin (1 / 2) \<and> fmul fmt (Fin 10) dt = Fin 5)
         \<and> fadd fmt (Fin t) (Fin 5) = rnd fmt (t + 5)
         \<and> fadd fmt (Fin 0) (Fin 5) = Fin 5"
proof -
  let ?self1 = "self\<lparr>last_update := now\<rparr>"
  let ?w1 = "w\<lparr>clock_count := Suc (clock_count w)\<rparr>"
  have dt: "dt = fdiv fmt (py_float fmt (ticks_diff w now (last_update self))) (Fin 1000)"
    using assms(2) by (simp add: py_float_1000)
  have u: "update_theta fmt self w =
     (case get_omega fmt ?self1 ?w1 of
        (Inl e, w2) \<Rightarrow> (Inl e, ?self1, w2)
      | (Inr omega, w2) \<Rightarrow>
          (case theta_loop fmt omega dt [''x'', ''y'', ''z''] ?self1 of
             (r, self2) \<Rightarrow> (r, self2, w2)))"
    unfolding update_theta_unfold [of fmt self w] assms(1) [symmetric] dt [symmetric] ..
  have c1: "last_update (fst (snd (update_theta fmt self w))) = now"
    unfolding assms(1) by (rule update_theta_last_update)
  have c2: "snd (get_theta fmt self w) = snd (update_theta fmt self w)"
    by (rule get_theta_state)
  have c3: "fst (get_theta fmt self w) =
             (case fst (update_theta fmt self w) of
                Inl e \<Rightarrow> Inl e
              | Inr u \<Rightarrow> Inr (theta (fst (snd (update_theta fmt self w)))))"
    by (simp add: get_theta_def split: prod.splits sum.splits)
  have c4: "update_theta fmt self w = (Inl e, ?self1, w2)" if "r = Inl e"
    using that assms(6) by (simp add: u)
  have c5: "\<exists>ox oy oz. omega = [''x'' \<mapsto> ox, ''y'' \<mapsto> oy, ''z'' \<mapsto> oz]" if "r = Inr omega"
    using that assms(6) get_omega_keys [of fmt ?self1 ?w1 omega w2] by simp
  have c6: "(py_int nx = Inr ix \<and> py_int ny = Inr iy \<and> py_int nz = Inr iz
                  \<longrightarrow> update_theta fmt self w =
                        (Inr (),
                         self\<lparr>theta := (theta self)(''x'' \<mapsto> ix, ''y'' \<mapsto> iy, ''z'' \<mapsto> iz),
                              theta_f := (theta_f self)(''x'' \<mapsto> nx, ''y'' \<mapsto> ny, ''z'' \<mapsto> nz),
                              last_update := now\<rparr>,
                         w2))
                \<and> (py_int nx = Inl e
                  \<longrightarrow> update_theta fmt self w =
                        (Inl e,
                         self\<lparr>theta_f := (theta_f self)(''x'' \<mapsto> nx), last_update := now\<rparr>,
                         w2))
                \<and> (py_int nx = Inr ix \<and> py_int ny = Inl e
                  \<longrightarrow> update_theta fmt self w =
                        (Inl e,
                         self\<lparr>theta := (theta self)(''x'' \<mapsto> ix),
                              theta_f := (theta_f self)(''x'' \<mapsto> nx, ''y'' \<mapsto> ny),
                              last_update := now\<rparr>,
                         w2))
                \<and> (py_int nx = Inr ix \<and> py_int ny = Inr iy \<and> py_int nz = Inl e
                  \<longrightarrow> update_theta fmt self w =
                        (Inl e,
                         self\<lparr>theta := (theta self)(''x'' \<mapsto> ix, ''y'' \<mapsto> iy),
                              theta_f := (theta_f self)(''x'' \<mapsto> nx, ''y'' \<mapsto> ny, ''z'' \<mapsto> nz),
                              last_update := now\<rparr>,
                         w2))"
    if r: "r = Inr omega"
      and o: "omega ''x'' = Some ox" "omega ''y'' = Some oy" "omega ''z'' = Some oz"
      and n: "nx = fadd fmt tx (fmul fmt ox dt)" "ny = fadd fmt ty (fmul fmt oy dt)"
        "nz = fadd fmt tz (fmul fmt oz dt)"
  proof -
    have tf: "theta_f ?self1 ''x'' = Some tx" "theta_f ?self1 ''y'' = Some ty"
      "theta_f ?self1 ''z'' = Some tz"
      using assms(3-5) by simp_all
    note stops = theta_loop_stops [OF tf o n]
    have g: "get_omega fmt ?self1 ?w1 = (Inr omega, w2)"
      using assms(6) r by simp
    have uu: "update_theta fmt self w =
          (case theta_loop fmt omega dt [''x'', ''y'', ''z''] ?self1 of
             (r, self2) \<Rightarrow> (r, self2, w2))"
      unfolding u g by simp
    have a: "update_theta fmt self w =
                        (Inr (),
                         self\<lparr>theta := (theta self)(''x'' \<mapsto> ix, ''y'' \<mapsto> iy, ''z'' \<mapsto> iz),
                              theta_f := (theta_f self)(''x'' \<mapsto> nx, ''y'' \<mapsto> ny, ''z'' \<mapsto> nz),
                              last_update := now\<rparr>,
                         w2)"
      if "py_int nx = Inr ix" "py_int ny = Inr iy" "py_int nz = Inr iz"
      unfolding uu stops(4) [OF that] by simp
    have b: "update_theta fmt self w =
                        (Inl e,
                         self\<lparr>theta_f := (theta_f self)(''x'' \<mapsto> nx), last_update := now\<rparr>,
                         w2)"
      if "py_int nx = Inl e"
      unfolding uu stops(1) [OF that] by simp
    have c: "update_theta fmt self w =
                        (Inl e,
                         self\<lparr>theta := (theta self)(''x'' \<mapsto> ix),
                              theta_f := (theta_f self)(''x'' \<mapsto> nx, ''y'' \<mapsto> ny),
                              last_update := now\<rparr>,
                         w2)"
      if "py_int nx = Inr ix" "py_int ny = Inl e"
      unfolding uu stops(2) [OF that] by simp
    have d: "update_theta fmt self w =
                        (Inl e,
                         self\<lparr>theta := (theta self)(''x'' \<mapsto> ix, ''y'' \<mapsto> iy),
                              theta_f := (theta_f self)(''x'' \<mapsto> nx, ''y'' \<mapsto> ny, ''z'' \<mapsto> nz),
                              last_update := now\<rparr>,
                         w2)"
      if "py_int nx = Inr ix" "py_int ny = Inr iy" "py_int nz = Inl e"
      unfolding uu stops(3) [OF that] by simp
    show ?thesis
      using a b c d by blast
  qed
  have c7: "ticks_diff w now (last_update self) = d"
    if "0 \<le> d" "d < TICKS_PERIOD w div 2" "now = (t0 + d) mod TICKS_PERIOD w"
      "last_update self = t0 mod TICKS_PERIOD w"
    unfolding that(3,4) using that(1,2) by (rule ticks_diff_wraparound)
  have c8: "dt = Fin (1 / 2) \<and> fmul fmt (Fin 10) dt = Fin 5"
    if "ticks_diff w now (last_update self) = 500"
  proof -
    have "dt = Fin (1 / 2)"
      using that py_float_exact [of 500 fmt] by (simp add: dt)
    then show ?thesis
      by simp
  qed
  have c9: "fadd fmt (Fin t) (Fin 5) = rnd fmt (t + 5)" "fadd fmt (Fin 0) (Fin 5) = Fin 5"
    by simp_all
  show ?thesis
    using c1 c2 c3 c4 c5 c6 c7 c8 c9 by blast
qed

theorem update_theta_forward_euler_witness:
  "update_theta Binary32
     ((fresh_mpu Binary32 [''x'' \<mapsto> Fin 0, ''y'' \<mapsto> Fin 0, ''z'' \<mapsto> Fin 0])
        \<lparr>last_update := 2 ^ 30 - 100\<rparr>)
     (steady_world 0x05 0x1E (\<lambda>n. 400))
   = (Inr (),
      (fresh_mpu Binary32 [''x'' \<mapsto> Fin 0, ''y'' \<mapsto> Fin 0, ''z'' \<mapsto> Fin 0])
        \<lparr>theta := [''x'' \<mapsto> 0, ''y'' \<mapsto> 0, ''z'' \<mapsto> 0](''x'' \<mapsto> 5, ''y'' \<mapsto> 5, ''z'' \<mapsto> 5),
         theta_f := [''x'' \<mapsto> Fin 0, ''y'' \<mapsto> Fin 0, ''z'' \<mapsto> Fin 0]
            (''x'' \<mapsto> Fin 5, ''y'' \<mapsto> Fin 5, ''z'' \<mapsto> Fin 5),
         last_update := 400\<rparr>,
      (steady_world 0x05 0x1E (\<lambda>n. 400))\<lparr>i2c_count := 6, clock_count := 1\<rparr>)"
  using update_theta_forward_euler [where fmt = Binary32
      and self = "(fresh_mpu Binary32 [''x'' \<mapsto> Fin 0, ''y'' \<mapsto> Fin 0, ''z'' \<mapsto> Fin 0])
        \<lparr>last_update := 2 ^ 30 - 100\<rparr>"
      and w = "steady_world 0x05 0x1E (\<lambda>n. 400)"
      and now = 400 and dt = "Fin (1 / 2)"
      and r = "Inr [''x'' \<mapsto> Fin 10, ''y'' \<mapsto> Fin 10, ''z'' \<mapsto> Fin 10]"
      and omega = "[''x'' \<mapsto> Fin 10, ''y'' \<mapsto> Fin 10, ''z'' \<mapsto> Fin 10]"
      and ?w2.0 = "(steady_world 0x05 0x1E (\<lambda>n. 400))\<lparr>i2c_count := 6, clock_count := 1\<rparr>"
      and ox = "Fin 10" and oy = "Fin 10" and oz = "Fin 10"
      and tx = "Fin 0" and ty = "Fin 0" and tz = "Fin 0"
      and nx = "Fin 5" and ny = "Fin 5" and nz = "Fin 5"
      and ix = 5 and iy = 5 and iz = 5]
  by (simp add: steady_world_def fresh_mpu_def float_literal_def get_omega_def read_raw_data_def
      seq_def readfrom_mem_def ret_def lift_def getitem_def py_truediv_def fsub_def
      GYRO_XOUT_H_def GYRO_YOUT_H_def GYRO_ZOUT_H_def py_float_exact ticks_diff_def
      trunc_toward_zero_def)












lemma fmul_zero [simp]: "fmul fmt (Fin a) (Fin 0) = Fin 0"
  by simp




subsection \<open>Calibration\<close>

lemma pow2_power_int: "pow2 k = power_int 2 k"
proof (cases "0 \<le> k")
  case True
  then show ?thesis
    by (simp add: pow2_def power_int_def)
next
  case False
  have "(1 :: real) / 2 ^ nat (- k) = inverse 2 ^ nat (- k)"
    by (simp add: power_one_over inverse_eq_divide)
  with False show ?thesis
    by (simp only: pow2_def power_int_def if_False)
qed

lemma pow2_pos: "0 < pow2 k"
  by (simp add: pow2_power_int)

lemma pow2_mono: "a \<le> b \<Longrightarrow> pow2 a \<le> pow2 b"
  by (simp add: pow2_power_int power_int_increasing)

lemma round_half_even_ge_one: "1 \<le> x \<Longrightarrow> 1 \<le> round_half_even x"
proof -
  assume "1 \<le> x"
  then have "1 \<le> \<lfloor>x\<rfloor>" by simp
  then show ?thesis
    by (simp add: round_half_even_def Let_def)
qed

lemma rnd_ge_one_nonzero:
  assumes "1 \<le> q"
  shows "rnd fmt q \<noteq> Fin 0"
proof -
  define n where "n = \<lfloor>q\<rfloor>"
  have n1: "1 \<le> n" using assms by (simp add: n_def)
  then have n0: "0 < n" by simp
  have il: "ilog2 q = bitlen n - 1"
    using assms by (simp add: ilog2_def n_def)
  have bl: "2 ^ nat (bitlen n - 1) \<le> n"
    using bitlen_bounds [OF n0] by simp
  have e0: "0 \<le> bitlen n - 1"
    using n0 bitlen_nonneg [of n] bitlen_eq_zero_iff [of n] by linarith
  define e where "e = max (ilog2 q) (1 - emax fmt)"
  have e: "e = bitlen n - 1"
    using e0 emax_ge_127 [of fmt] by (simp add: e_def il)
  define ulp where "ulp = pow2 (e - (int (precision fmt) - 1))"
  have "ulp \<le> pow2 e"
    unfolding ulp_def using precision_ge_24 [of fmt] by (intro pow2_mono) simp
  also have "pow2 e = 2 ^ nat (bitlen n - 1)"
    using e0 by (simp add: pow2_def e)
  also have "\<dots> \<le> real_of_int n"
    using bl by (metis of_int_le_iff of_int_numeral of_int_power)
  also have "\<dots> \<le> q"
    by (simp add: n_def)
  finally have "ulp \<le> q" .
  moreover have up: "0 < ulp"
    by (simp add: ulp_def pow2_pos)
  ultimately have "1 \<le> \<bar>q\<bar> / ulp"
    using assms by (simp add: pos_le_divide_eq)
  then have "1 \<le> round_half_even (\<bar>q\<bar> / ulp)"
    by (rule round_half_even_ge_one)
  then have "0 < real_of_int (round_half_even (\<bar>q\<bar> / ulp))"
    by simp
  with up assms have "sgn q * real_of_int (round_half_even (\<bar>q\<bar> / ulp)) * ulp \<noteq> 0"
    by simp
  then show ?thesis
    using assms unfolding rnd_def Let_def e_def [symmetric] ulp_def [symmetric]
    by (simp del: of_int_eq_0_iff)
qed

lemma py_float_pos_nonzero: "1 \<le> i \<Longrightarrow> py_float fmt i \<noteq> Fin 0"
  unfolding py_float_def by (rule rnd_ge_one_nonzero) simp

lemma float_literal_131: "float_literal fmt 131 = Fin 131"
  using float_literal_int [of 131 fmt] by simp

lemma float_sum_replicate_exact:
  assumes "\<forall>k\<le>n. rnd fmt (of_nat k * q) = Fin (of_nat k * q)"
  shows "float_sum fmt (replicate n (Fin q)) = Fin (of_nat n * q)"
  using assms
proof (induction n)
  case 0
  then show ?case by (simp add: float_sum_def)
next
  case (Suc n)
  then have ih: "float_sum fmt (replicate n (Fin q)) = Fin (of_nat n * q)"
    by simp
  have "replicate (Suc n) (Fin q) = replicate n (Fin q) @ [Fin q]"
    by (simp add: replicate_append_same)
  then have "float_sum fmt (replicate (Suc n) (Fin q))
        = fadd fmt (float_sum fmt (replicate n (Fin q))) (Fin q)"
    by (simp only: float_sum_def foldl_append foldl.simps)
  also have "\<dots> = rnd fmt (of_nat n * q + q)"
    by (simp add: ih)
  also have "of_nat n * q + q = of_nat (Suc n) * q"
    by (simp add: algebra_simps)
  also have "rnd fmt (of_nat (Suc n) * q) = Fin (of_nat (Suc n) * q)"
    using Suc.prems by blast
  finally show ?case .
qed

lemma float_mean_replicate_exact:
  assumes "0 < n"
    and "\<forall>k\<le>n. rnd fmt (of_nat k * q) = Fin (of_nat k * q)"
    and "py_float fmt (int n) = Fin (of_nat n)"
  shows "float_mean fmt (replicate n (Fin q)) = Fin q"
proof -
  have "rnd fmt (of_nat 1 * q) = Fin (of_nat 1 * q)"
    using assms(1,2) by (metis Suc_leI One_nat_def)
  then have q: "rnd fmt q = Fin q"
    by simp
  have "float_mean fmt (replicate n (Fin q)) = rnd fmt (of_nat n * q / of_nat n)"
    using assms(3) float_sum_replicate_exact [OF assms(2)]
    by (simp add: float_mean_def)
  also have "of_nat n * q / of_nat n = q"
    using assms(1) by simp
  finally show ?thesis
    using q by simp
qed

lemma sample_15_binary32:
  "fdiv Binary32 (Fin 15) (Fin 131) = Fin (7684221 / 67108864)"
  by (simp add: rnd_eval)

lemma sample_15_binary64:
  "fdiv Binary64 (Fin 15) (Fin 131) = Fin (4125434773163813 / 36028797018963968)"
  by (simp add: rnd_eval)

lemma mean_3_binary32:
  "float_mean Binary32 (replicate 3 (Fin (7684221 / 67108864))) = Fin (15368443 / 134217728)"
  by (simp add: float_mean_def float_sum_def numeral_3_eq_3 py_float_exact rnd_eval)

lemma mean_3_binary64:
  "float_mean Binary64 (replicate 3 (Fin (4125434773163813 / 36028797018963968)))
     = Fin (8250869546327627 / 72057594037927936)"
  by (simp add: float_mean_def float_sum_def numeral_3_eq_3 py_float_exact rnd_eval)

lemma raw_at_i2c_count [simp]: "raw_at self (w\<lparr>i2c_count := m\<rparr>) n reg = raw_at self w n reg"
  by (simp add: raw_at_def)

lemma read_raw_data_world:
  assumes "read_raw_data self reg w = (Inr v, w')"
  shows "w' = w\<lparr>i2c_count := i2c_count w + 2\<rparr>"
  using assms
  by (auto simp add: read_raw_data_def seq_def readfrom_mem_def ret_def Let_def
      split: option.splits)

lemma read_raw_data_raw_at:
  assumes "raw_at self w (i2c_count w) reg = Inr v"
  shows "read_raw_data self reg w = (Inr v, w\<lparr>i2c_count := i2c_count w + 2\<rparr>)"
proof -
  have "fst (read_raw_data self reg w) = Inr v"
    using assms by (simp add: raw_at_def)
  then obtain w' where r: "read_raw_data self reg w = (Inr v, w')"
    by (cases "read_raw_data self reg w") simp
  with read_raw_data_world [OF r] show ?thesis
    by simp
qed

lemma calibrate_loop_step:
  assumes "raw_at self w (i2c_count w) GYRO_XOUT_H = Inr rx"
    and "raw_at self w (i2c_count w + 2) GYRO_YOUT_H = Inr ry"
    and "raw_at self w (i2c_count w + 4) GYRO_ZOUT_H = Inr rz"
    and "omega_offset_sensetivity_factor self \<noteq> Fin 0"
    and "offset ''x'' = Some ax" and "offset ''y'' = Some ay" and "offset ''z'' = Some az"
  shows "calibrate_loop fmt self (Suc n) offset w =
           calibrate_loop fmt self n
             (offset(''x'' \<mapsto> fadd fmt ax (fdiv fmt (py_float fmt rx) (omega_offset_sensetivity_factor self)),
                     ''y'' \<mapsto> fadd fmt ay (fdiv fmt (py_float fmt ry) (omega_offset_sensetivity_factor self)),
                     ''z'' \<mapsto> fadd fmt az (fdiv fmt (py_float fmt rz) (omega_offset_sensetivity_factor self))))
             (w\<lparr>i2c_count := i2c_count w + 6\<rparr>)"
proof -
  let ?w1 = "w\<lparr>i2c_count := i2c_count w + 2\<rparr>"
  let ?w2 = "w\<lparr>i2c_count := i2c_count w + 4\<rparr>"
  have x: "read_raw_data self GYRO_XOUT_H w = (Inr rx, ?w1)"
    using assms(1) by (rule read_raw_data_raw_at)
  have "raw_at self ?w1 (i2c_count ?w1) GYRO_YOUT_H = Inr ry"
    using assms(2) by simp
  from read_raw_data_raw_at [OF this]
  have y: "read_raw_data self GYRO_YOUT_H ?w1 = (Inr ry, ?w2)"
    by simp
  have "raw_at self ?w2 (i2c_count ?w2) GYRO_ZOUT_H = Inr rz"
    using assms(3) by simp
  from read_raw_data_raw_at [OF this]
  have z: "read_raw_data self GYRO_ZOUT_H ?w2 = (Inr rz, w\<lparr>i2c_count := i2c_count w + 6\<rparr>)"
    by simp
  show ?thesis
    using x y z assms(4-7)
    by (simp add: seq_def lift_def py_truediv_Inr getitem_def)
qed

lemma foldl_map_upt_Suc:
  "foldl f a (map h [0..<Suc n]) = foldl f (f a (h 0)) (map (\<lambda>k. h (Suc k)) [0..<n])"
proof -
  have "[0..<Suc n] = 0 # map Suc [0..<n]"
    by (simp only: map_Suc_upt upt_conv_Cons [of 0 "Suc n"] zero_less_Suc)
  then show ?thesis
    by (simp only: list.map foldl.simps map_map comp_def)
qed

lemma calibrate_loop_sums:
  assumes "omega_offset_sensetivity_factor self \<noteq> Fin 0"
    and "\<forall>k<n. raw_at self w (i2c_count w + 6 * k) GYRO_XOUT_H = Inr (rx k)
            \<and> raw_at self w (i2c_count w + 6 * k + 2) GYRO_YOUT_H = Inr (ry k)
            \<and> raw_at self w (i2c_count w + 6 * k + 4) GYRO_ZOUT_H = Inr (rz k)"
    and "offset ''x'' = Some ax" and "offset ''y'' = Some ay" and "offset ''z'' = Some az"
  shows "\<exists>offset'.
           calibrate_loop fmt self n offset w = (Inr offset', w\<lparr>i2c_count := i2c_count w + 6 * n\<rparr>)
           \<and> offset' ''x'' = Some (foldl (fadd fmt) ax
                (map (\<lambda>k. fdiv fmt (py_float fmt (rx k)) (omega_offset_sensetivity_factor self)) [0..<n]))
           \<and> offset' ''y'' = Some (foldl (fadd fmt) ay
                (map (\<lambda>k. fdiv fmt (py_float fmt (ry k)) (omega_offset_sensetivity_factor self)) [0..<n]))
           \<and> offset' ''z'' = Some (foldl (fadd fmt) az
                (map (\<lambda>k. fdiv fmt (py_float fmt (rz k)) (omega_offset_sensetivity_factor self)) [0..<n]))"
  using assms(2-)
proof (induction n arbitrary: w offset ax ay az rx ry rz)
  case 0
  then show ?case by (simp add: ret_def)
next
  case (Suc n)
  let ?s = "omega_offset_sensetivity_factor self"
  let ?offset1 = "offset(''x'' \<mapsto> fadd fmt ax (fdiv fmt (py_float fmt (rx 0)) ?s),
                     ''y'' \<mapsto> fadd fmt ay (fdiv fmt (py_float fmt (ry 0)) ?s),
                     ''z'' \<mapsto> fadd fmt az (fdiv fmt (py_float fmt (rz 0)) ?s))"
  let ?w1 = "w\<lparr>i2c_count := i2c_count w + 6\<rparr>"
  have first: "raw_at self w (i2c_count w) GYRO_XOUT_H = Inr (rx 0)"
    "raw_at self w (i2c_count w + 2) GYRO_YOUT_H = Inr (ry 0)"
    "raw_at self w (i2c_count w + 4) GYRO_ZOUT_H = Inr (rz 0)"
    using Suc.prems(1) by (auto dest: spec [of _ 0])
  have step: "calibrate_loop fmt self (Suc n) offset w = calibrate_loop fmt self n ?offset1 ?w1"
    by (rule calibrate_loop_step [OF first assms(1) Suc.prems(2-4)])
  have rest: "\<forall>k<n. raw_at self ?w1 (i2c_count ?w1 + 6 * k) GYRO_XOUT_H = Inr (rx (Suc k))
            \<and> raw_at self ?w1 (i2c_count ?w1 + 6 * k + 2) GYRO_YOUT_H = Inr (ry (Suc k))
            \<and> raw_at self ?w1 (i2c_count ?w1 + 6 * k + 4) GYRO_ZOUT_H = Inr (rz (Suc k))"
  proof (intro allI impI)
    fix k assume "k < n"
    then have "Suc k < Suc n" by simp
    with Suc.prems(1) have
      "raw_at self w (i2c_count w + 6 * Suc k) GYRO_XOUT_H = Inr (rx (Suc k))
       \<and> raw_at self w (i2c_count w + 6 * Suc k + 2) GYRO_YOUT_H = Inr (ry (Suc k))
       \<and> raw_at self w (i2c_count w + 6 * Suc k + 4) GYRO_ZOUT_H = Inr (rz (Suc k))"
      by blast
    then show "raw_at self ?w1 (i2c_count ?w1 + 6 * k) GYRO_XOUT_H = Inr (rx (Suc k))
            \<and> raw_at self ?w1 (i2c_count ?w1 + 6 * k + 2) GYRO_YOUT_H = Inr (ry (Suc k))
            \<and> raw_at self ?w1 (i2c_count ?w1 + 6 * k + 4) GYRO_ZOUT_H = Inr (rz (Suc k))"
      by (simp add: add.assoc add.commute add.left_commute)
  qed
  have o1: "?offset1 ''x'' = Some (fadd fmt ax (fdiv fmt (py_float fmt (rx 0)) ?s))"
    "?offset1 ''y'' = Some (fadd fmt ay (fdiv fmt (py_float fmt (ry 0)) ?s))"
    "?offset1 ''z'' = Some (fadd fmt az (fdiv fmt (py_float fmt (rz 0)) ?s))"
    by simp_all
  from Suc.IH [OF rest o1] obtain offset' where
    r: "calibrate_loop fmt self n ?offset1 ?w1
          = (Inr offset', ?w1\<lparr>i2c_count := i2c_count ?w1 + 6 * n\<rparr>)"
    and vx: "offset' ''x'' = Some (foldl (fadd fmt) (fadd fmt ax (fdiv fmt (py_float fmt (rx 0)) ?s))
                (map (\<lambda>k. fdiv fmt (py_float fmt (rx (Suc k))) ?s) [0..<n]))"
    and vy: "offset' ''y'' = Some (foldl (fadd fmt) (fadd fmt ay (fdiv fmt (py_float fmt (ry 0)) ?s))
                (map (\<lambda>k. fdiv fmt (py_float fmt (ry (Suc k))) ?s) [0..<n]))"
    and vz: "offset' ''z'' = Some (foldl (fadd fmt) (fadd fmt az (fdiv fmt (py_float fmt (rz 0)) ?s))
                (map (\<lambda>k. fdiv fmt (py_float fmt (rz (Suc k))) ?s) [0..<n]))"
    by blast
  have w: "?w1\<lparr>i2c_count := i2c_count ?w1 + 6 * n\<rparr> = w\<lparr>i2c_count := i2c_count w + 6 * Suc n\<rparr>"
    by simp
  show ?case
  proof (intro exI [of _ offset'] conjI)
    show "calibrate_loop fmt self (Suc n) offset w
            = (Inr offset', w\<lparr>i2c_count := i2c_count w + 6 * Suc n\<rparr>)"
      unfolding step r w ..
    show "offset' ''x'' = Some (foldl (fadd fmt) ax
            (map (\<lambda>k. fdiv fmt (py_float fmt (rx k)) ?s) [0..<Suc n]))"
      unfolding foldl_map_upt_Suc by (rule vx)
    show "offset' ''y'' = Some (foldl (fadd fmt) ay
            (map (\<lambda>k. fdiv fmt (py_float fmt (ry k)) ?s) [0..<Suc n]))"
      unfolding foldl_map_upt_Suc by (rule vy)
    show "offset' ''z'' = Some (foldl (fadd fmt) az
            (map (\<lambda>k. fdiv fmt (py_float fmt (rz k)) ?s) [0..<Suc n]))"
      unfolding foldl_map_upt_Suc by (rule vz)
  qed
qed

lemma calibrate_gyro_mean:
  assumes "omega_offset_sensetivity_factor self \<noteq> Fin 0"
    and "1 \<le> samples"
    and "\<forall>k<nat samples.
            raw_at self w (i2c_count w + 6 * k) GYRO_XOUT_H = Inr (rx k)
            \<and> raw_at self w (i2c_count w + 6 * k + 2) GYRO_YOUT_H = Inr (ry k)
            \<and> raw_at self w (i2c_count w + 6 * k + 4) GYRO_ZOUT_H = Inr (rz k)"
  shows "calibrate_gyro fmt self samples w =
           (Inr [''x'' \<mapsto> float_mean fmt
                   (map (\<lambda>k. fdiv fmt (py_float fmt (rx k)) (omega_offset_sensetivity_factor self))
                      [0..<nat samples]),
                 ''y'' \<mapsto> float_mean fmt
                   (map (\<lambda>k. fdiv fmt (py_float fmt (ry k)) (omega_offset_sensetivity_factor self))
                      [0..<nat samples]),
                 ''z'' \<mapsto> float_mean fmt
                   (map (\<lambda>k. fdiv fmt (py_float fmt (rz k)) (omega_offset_sensetivity_factor self))
                      [0..<nat samples])],
            w\<lparr>i2c_count := i2c_count w + 6 * nat samples\<rparr>)"
proof -
  let ?zero = "[''x'' \<mapsto> Fin 0, ''y'' \<mapsto> Fin 0, ''z'' \<mapsto> Fin 0]"
  have z: "?zero ''x'' = Some (Fin 0)" "?zero ''y'' = Some (Fin 0)" "?zero ''z'' = Some (Fin 0)"
    by simp_all
  from calibrate_loop_sums [OF assms(1) assms(3) z, of fmt]
  obtain offset' where
    l: "calibrate_loop fmt self (nat samples) ?zero w
          = (Inr offset', w\<lparr>i2c_count := i2c_count w + 6 * nat samples\<rparr>)"
    and vx: "offset' ''x'' = Some (foldl (fadd fmt) (Fin 0)
                (map (\<lambda>k. fdiv fmt (py_float fmt (rx k)) (omega_offset_sensetivity_factor self))
                   [0..<nat samples]))"
    and vy: "offset' ''y'' = Some (foldl (fadd fmt) (Fin 0)
                (map (\<lambda>k. fdiv fmt (py_float fmt (ry k)) (omega_offset_sensetivity_factor self))
                   [0..<nat samples]))"
    and vz: "offset' ''z'' = Some (foldl (fadd fmt) (Fin 0)
                (map (\<lambda>k. fdiv fmt (py_float fmt (rz k)) (omega_offset_sensetivity_factor self))
                   [0..<nat samples]))"
    by blast
  have n: "py_float fmt samples \<noteq> Fin 0"
    using assms(2) by (rule py_float_pos_nonzero)
  have len: "int (nat samples) = samples"
    using assms(2) by simp
  show ?thesis
    unfolding calibrate_gyro_def float_mean_def float_sum_def
    using l vx vy vz n assms(2)
    by (simp add: seq_def lift_def ret_def getitem_def py_truediv_def len)
qed

lemma steady_raw_at:
  "raw_at self (steady_world hi lo ticks) n reg =
     Inr (let value = push_bit 8 (uint (if odd reg then hi else lo))
                        OR uint (if odd (reg + 1) then hi else lo)
          in if value > 32767 then value - 65536 else value)"
  by (simp add: raw_at_def steady_world_def read_raw_data_def seq_def readfrom_mem_def ret_def
      Let_def)

lemma calibrate_gyro_steady_15:
  assumes "1 \<le> samples"
  shows "calibrate_gyro fmt (fresh_mpu fmt Map.empty) samples (steady_world 0 15 ticks) =
           (Inr [''x'' \<mapsto> float_mean fmt (replicate (nat samples) (fdiv fmt (Fin 15) (Fin 131))),
                 ''y'' \<mapsto> float_mean fmt (replicate (nat samples) (fdiv fmt (Fin 15) (Fin 131))),
                 ''z'' \<mapsto> float_mean fmt (replicate (nat samples) (fdiv fmt (Fin 15) (Fin 131)))],
            (steady_world 0 15 ticks)\<lparr>i2c_count := 6 * nat samples\<rparr>)"
proof -
  let ?self = "fresh_mpu fmt Map.empty"
  let ?w = "steady_world 0 15 ticks"
  have s: "omega_offset_sensetivity_factor ?self = Fin 131"
    by (simp add: fresh_mpu_def float_literal_131)
  then have s0: "omega_offset_sensetivity_factor ?self \<noteq> Fin 0"
    by simp
  have r: "\<forall>k<nat samples.
            raw_at ?self ?w (i2c_count ?w + 6 * k) GYRO_XOUT_H = Inr ((\<lambda>k. 15) k)
            \<and> raw_at ?self ?w (i2c_count ?w + 6 * k + 2) GYRO_YOUT_H = Inr ((\<lambda>k. 15) k)
            \<and> raw_at ?self ?w (i2c_count ?w + 6 * k + 4) GYRO_ZOUT_H = Inr ((\<lambda>k. 15) k)"
    by (simp add: steady_raw_at GYRO_XOUT_H_def GYRO_YOUT_H_def GYRO_ZOUT_H_def)
  have c: "i2c_count ?w = 0"
    by (simp add: steady_world_def)
  have p: "py_float fmt 15 = Fin 15"
    using py_float_exact [of 15 fmt] by simp
  have m: "map (\<lambda>k. fdiv fmt (Fin 15) (Fin 131)) [0..<nat samples]
        = replicate (nat samples) (fdiv fmt (Fin 15) (Fin 131))"
    using map_replicate_const [of "fdiv fmt (Fin 15) (Fin 131)" "[0..<nat samples]"] by simp
  show ?thesis
    using calibrate_gyro_mean [OF s0 assms r, of fmt]
    by (simp only: s c p m add_0)
qed

lemma calibrate_gyro_zero_sensitivity:
  "fst (calibrate_gyro Binary32 (set_gyro_sensitivity (fresh_mpu Binary32 Map.empty) (Fin 0)) 3
          (steady_world 0 15 (\<lambda>n. 0)))
     = Inl ZeroDivisionError"
  by (simp add: calibrate_gyro_def numeral_3_eq_3 seq_def lift_def py_truediv_def
      read_raw_data_def readfrom_mem_def ret_def steady_world_def fresh_mpu_def
      set_gyro_sensitivity_def GYRO_XOUT_H_def)

text \<open>
  C4, as the specification states it, makes the offset of constant samples exactly
  \<open>R / sensitivity\<close> for every sample count. With the default sensitivity 131.0, raw value
  15 and three samples the result differs from \<^verbatim>\<open>15 / 131.0\<close> in the last bit, in binary32
  and in binary64: the running sum \<open>3 * (15 / 131.0)\<close> is rounded, and so is its third.
  With the sensitivity 0.0 the calibration raises \<^verbatim>\<open>ZeroDivisionError\<close>.
\<close>

theorem calibrate_gyro_mean_inexact:
  "fst (calibrate_gyro Binary32 (fresh_mpu Binary32 Map.empty) 3 (steady_world 0 15 (\<lambda>n. 0)))
     = Inr [''x'' \<mapsto> Fin (15368443 / 134217728), ''y'' \<mapsto> Fin (15368443 / 134217728),
            ''z'' \<mapsto> Fin (15368443 / 134217728)]
   \<and> fdiv Binary32 (py_float Binary32 15)
        (omega_offset_sensetivity_factor (fresh_mpu Binary32 Map.empty))
     = Fin (7684221 / 67108864)
   \<and> (15368443 / 134217728 :: real) \<noteq> 7684221 / 67108864
   \<and> fst (calibrate_gyro Binary64 (fresh_mpu Binary64 Map.empty) 3 (steady_world 0 15 (\<lambda>n. 0)))
     = Inr [''x'' \<mapsto> Fin (8250869546327627 / 72057594037927936),
            ''y'' \<mapsto> Fin (8250869546327627 / 72057594037927936),
            ''z'' \<mapsto> Fin (8250869546327627 / 72057594037927936)]
   \<and> fdiv Binary64 (py_float Binary64 15)
        (omega_offset_sensetivity_factor (fresh_mpu Binary64 Map.empty))
     = Fin (4125434773163813 / 36028797018963968)
   \<and> (8250869546327627 / 72057594037927936 :: real) \<noteq> 4125434773163813 / 36028797018963968
   \<and> fst (calibrate_gyro Binary32
          (set_gyro_sensitivity (fresh_mpu Binary32 Map.empty) (Fin 0)) 3
          (steady_world 0 15 (\<lambda>n. 0)))
     = Inl ZeroDivisionError"
proof -
  have three: "nat 3 = 3" "(1 :: int) \<le> 3"
    by simp_all
  have a: "fst (calibrate_gyro Binary32 (fresh_mpu Binary32 Map.empty) 3 (steady_world 0 15 (\<lambda>n. 0)))
     = Inr [''x'' \<mapsto> Fin (15368443 / 134217728), ''y'' \<mapsto> Fin (15368443 / 134217728),
            ''z'' \<mapsto> Fin (15368443 / 134217728)]"
    by (simp only: calibrate_gyro_steady_15 [OF three(2)] three(1) sample_15_binary32
        mean_3_binary32 fst_conv)
  have b: "fst (calibrate_gyro Binary64 (fresh_mpu Binary64 Map.empty) 3 (steady_world 0 15 (\<lambda>n. 0)))
     = Inr [''x'' \<mapsto> Fin (8250869546327627 / 72057594037927936),
            ''y'' \<mapsto> Fin (8250869546327627 / 72057594037927936),
            ''z'' \<mapsto> Fin (8250869546327627 / 72057594037927936)]"
    by (simp only: calibrate_gyro_steady_15 [OF three(2)] three(1) sample_15_binary64
        mean_3_binary64 fst_conv)
  have p: "py_float Binary32 15 = Fin 15" "py_float Binary64 15 = Fin 15"
    using py_float_exact [of 15 Binary32] py_float_exact [of 15 Binary64] by simp_all
  have s: "omega_offset_sensetivity_factor (fresh_mpu Binary32 Map.empty) = Fin 131"
    "omega_offset_sensetivity_factor (fresh_mpu Binary64 Map.empty) = Fin 131"
    by (simp_all add: fresh_mpu_def float_literal_131)
  show ?thesis
    unfolding p s sample_15_binary32 sample_15_binary64
    using a b calibrate_gyro_zero_sensitivity by simp
qed

text \<open>
  C4, amended. For a sample count \<open>N \<ge> 1\<close>, when the reads succeed and the gyro
  sensitivity is not zero, \<^verbatim>\<open>_calibrate_gyro\<close> returns on each axis the floating-point mean
  of the \<open>N\<close> samples \<^verbatim>\<open>raw / sensitivity\<close> (no bias is subtracted): the samples are added
  one by one to a sum that starts at zero, each addition rounding, and the sum is divided
  by \<open>N\<close>, rounding once more. With the same raw value \<open>R\<close> in every sample the result is
  the same on each axis, the floating-point mean of \<open>N\<close> copies of \<^verbatim>\<open>R / sensitivity\<close>; it
  is \<^verbatim>\<open>R / sensitivity\<close> itself whenever \<open>N\<close> and the multiples of \<^verbatim>\<open>R / sensitivity\<close> up
  to the \<open>N\<close>-fold are floats, so that no addition rounds.
\<close>

theorem calibrate_gyro_float_mean:
  assumes "omega_offset_sensetivity_factor self \<noteq> Fin 0"
    and "1 \<le> samples"
    and "\<forall>k<nat samples.
            raw_at self w (i2c_count w + 6 * k) GYRO_XOUT_H = Inr (rx k)
            \<and> raw_at self w (i2c_count w + 6 * k + 2) GYRO_YOUT_H = Inr (ry k)
            \<and> raw_at self w (i2c_count w + 6 * k + 4) GYRO_ZOUT_H = Inr (rz k)"
  shows "calibrate_gyro fmt self samples w =
           (Inr [''x'' \<mapsto> float_mean fmt
                   (map (\<lambda>k. fdiv fmt (py_float fmt (rx k)) (omega_offset_sensetivity_factor self))
                      [0..<nat samples]),
                 ''y'' \<mapsto> float_mean fmt
                   (map (\<lambda>k. fdiv fmt (py_float fmt (ry k)) (omega_offset_sensetivity_factor self))
                      [0..<nat samples]),
                 ''z'' \<mapsto> float_mean fmt
                   (map (\<lambda>k. fdiv fmt (py_float fmt (rz k)) (omega_offset_sensetivity_factor self))
                      [0..<nat samples])],
            w\<lparr>i2c_count := i2c_count w + 6 * nat samples\<rparr>)
         \<and> ((\<forall>k<nat samples. rx k = R \<and> ry k = R \<and> rz k = R)
              \<and> m = float_mean fmt (replicate (nat samples)
                       (fdiv fmt (py_float fmt R) (omega_offset_sensetivity_factor self)))
            \<longrightarrow> fst (calibrate_gyro fmt self samples w)
                  = Inr [''x'' \<mapsto> m, ''y'' \<mapsto> m, ''z'' \<mapsto> m])
         \<and> ((\<forall>k<nat samples. rx k = R \<and> ry k = R \<and> rz k = R)
              \<and> fdiv fmt (py_float fmt R) (omega_offset_sensetivity_factor self) = Fin q
              \<and> (\<forall>k\<le>nat samples. rnd fmt (of_nat k * q) = Fin (of_nat k * q))
              \<and> py_float fmt samples = Fin (of_int samples)
            \<longrightarrow> fst (calibrate_gyro fmt self samples w)
                  = Inr [''x'' \<mapsto> Fin q, ''y'' \<mapsto> Fin q, ''z'' \<mapsto> Fin q])"
proof -
  let ?s = "omega_offset_sensetivity_factor self"
  let ?n = "nat samples"
  note mean = calibrate_gyro_mean [OF assms, of fmt]
  have same: "fst (calibrate_gyro fmt self samples w)
          = Inr [''x'' \<mapsto> v, ''y'' \<mapsto> v, ''z'' \<mapsto> v]"
    if c: "\<forall>k<?n. rx k = R \<and> ry k = R \<and> rz k = R"
      and m: "v = float_mean fmt (replicate ?n (fdiv fmt (py_float fmt R) ?s))"
    for v
  proof -
    have "map (\<lambda>k. fdiv fmt (py_float fmt (rx k)) ?s) [0..<?n]
            = replicate ?n (fdiv fmt (py_float fmt R) ?s)"
      "map (\<lambda>k. fdiv fmt (py_float fmt (ry k)) ?s) [0..<?n]
            = replicate ?n (fdiv fmt (py_float fmt R) ?s)"
      "map (\<lambda>k. fdiv fmt (py_float fmt (rz k)) ?s) [0..<?n]
            = replicate ?n (fdiv fmt (py_float fmt R) ?s)"
      using c
      by (simp_all add: map_replicate_const [of "fdiv fmt (py_float fmt R) ?s" "[0..<?n]",
            simplified, symmetric])
    with mean m show ?thesis
      by simp
  qed
  have exact: "fst (calibrate_gyro fmt self samples w)
          = Inr [''x'' \<mapsto> Fin q, ''y'' \<mapsto> Fin q, ''z'' \<mapsto> Fin q]"
    if c: "\<forall>k<?n. rx k = R \<and> ry k = R \<and> rz k = R"
      and q: "fdiv fmt (py_float fmt R) ?s = Fin q"
      and e: "\<forall>k\<le>?n. rnd fmt (of_nat k * q) = Fin (of_nat k * q)"
      and n: "py_float fmt samples = Fin (of_int samples)"
  proof -
    have pos: "0 < ?n" using assms(2) by simp
    have n': "py_float fmt (int ?n) = Fin (of_nat ?n)"
      using n assms(2) by simp
    have "float_mean fmt (replicate ?n (Fin q)) = Fin q"
      by (rule float_mean_replicate_exact [OF pos e n'])
    then have "Fin q = float_mean fmt (replicate ?n (fdiv fmt (py_float fmt R) ?s))"
      unfolding q by (rule sym)
    from same [OF c this] show ?thesis .
  qed
  from mean same exact show ?thesis
    by blast
qed

theorem calibrate_gyro_float_mean_witness:
  "calibrate_gyro Binary32 (fresh_mpu Binary32 Map.empty) 2 (steady_world 0 15 (\<lambda>n. 0))
     = (Inr [''x'' \<mapsto> Fin (7684221 / 67108864), ''y'' \<mapsto> Fin (7684221 / 67108864),
             ''z'' \<mapsto> Fin (7684221 / 67108864)],
        (steady_world 0 15 (\<lambda>n. 0))\<lparr>i2c_count := 12\<rparr>)
   \<and> fdiv Binary32 (py_float Binary32 15)
        (omega_offset_sensetivity_factor (fresh_mpu Binary32 Map.empty))
     = Fin (7684221 / 67108864)"
proof -
  let ?self = "fresh_mpu Binary32 Map.empty"
  let ?w = "steady_world 0 15 (\<lambda>n. 0)"
  let ?q = "7684221 / 67108864 :: real"
  have s: "omega_offset_sensetivity_factor ?self = Fin 131"
    by (simp add: fresh_mpu_def float_literal_131)
  have s0: "omega_offset_sensetivity_factor ?self \<noteq> Fin 0"
    by (simp add: s)
  have r: "\<forall>k<nat 2.
            raw_at ?self ?w (i2c_count ?w + 6 * k) GYRO_XOUT_H = Inr ((\<lambda>k. 15) k)
            \<and> raw_at ?self ?w (i2c_count ?w + 6 * k + 2) GYRO_YOUT_H = Inr ((\<lambda>k. 15) k)
            \<and> raw_at ?self ?w (i2c_count ?w + 6 * k + 4) GYRO_ZOUT_H = Inr ((\<lambda>k. 15) k)"
    by (simp add: steady_raw_at GYRO_XOUT_H_def GYRO_YOUT_H_def GYRO_ZOUT_H_def)
  have p: "py_float Binary32 15 = Fin 15"
    using py_float_exact [of 15 Binary32] by simp
  have q: "fdiv Binary32 (py_float Binary32 15) (omega_offset_sensetivity_factor ?self) = Fin ?q"
    unfolding s p by (rule sample_15_binary32)
  have e: "\<forall>k\<le>nat 2. rnd Binary32 (of_nat k * ?q) = Fin (of_nat k * ?q)"
  proof (intro allI impI)
    fix k :: nat
    assume "k \<le> nat 2"
    then consider "k = 0" | "k = 1" | "k = 2"
      by force
    then show "rnd Binary32 (of_nat k * ?q) = Fin (of_nat k * ?q)"
      by cases (simp_all add: rnd_eval)
  qed
  have n: "py_float Binary32 2 = Fin (of_int 2)"
    using py_float_exact [of 2 Binary32] by simp
  have c: "i2c_count ?w + 6 * nat 2 = 12"
    by (simp add: steady_world_def)
  have two: "(1 :: int) \<le> 2"
    by simp
  note t = calibrate_gyro_float_mean [where fmt = Binary32 and self = ?self and samples = 2
      and w = ?w and rx = "\<lambda>k. 15" and ry = "\<lambda>k. 15" and rz = "\<lambda>k. 15" and R = 15
      and q = ?q, OF s0 two r]
  have "snd (calibrate_gyro Binary32 ?self 2 ?w) = ?w\<lparr>i2c_count := 12\<rparr>"
    using t [THEN conjunct1] c by simp
  moreover have "fst (calibrate_gyro Binary32 ?self 2 ?w)
      = Inr [''x'' \<mapsto> Fin ?q, ''y'' \<mapsto> Fin ?q, ''z'' \<mapsto> Fin ?q]"
    by (rule t [THEN conjunct2, THEN conjunct2, THEN mp]) (intro conjI q e n, simp_all)
  ultimately have "calibrate_gyro Binary32 ?self 2 ?w
      = (Inr [''x'' \<mapsto> Fin ?q, ''y'' \<mapsto> Fin ?q, ''z'' \<mapsto> Fin ?q], ?w\<lparr>i2c_count := 12\<rparr>)"
    by (simp add: prod_eq_iff)
  with q show ?thesis
    by simp
qed


subsection \<open>The constructor in a world at rest\<close>

text \<open>
  With every register reading zero the calibration sums zeros: \<^verbatim>\<open>__init__\<close> returns the
  object \<open>fresh_mpu\<close> with a zero offset, after 1201 bus transactions and one clock reading.
\<close>

lemma raw_at_clock_count [simp]:
  "raw_at self (w\<lparr>clock_count := m\<rparr>) n reg = raw_at self w n reg"
  by (simp add: raw_at_def read_raw_data_def seq_def readfrom_mem_def ret_def Let_def
      split: option.splits)



subsection \<open>The angle invariant\<close>






subsection \<open>The stored bias offset\<close>














end
